theory Spec2Isabelle
  imports Complex_Main
begin

section \<open>The scene module of src/index.ts\<close>

text \<open>
  The module keeps seven variables (scene, camera, renderer, controls, model, mixer,
  resizeObserver), each either undefined or a reference to an object of the rendering
  engine or of the host page. The objects live in an explicit store, one table per class,
  so that an object outlives the variable that referred to it and two variables can be
  compared by reference. A variable is a \<open>ref option\<close>, with \<open>None\<close> for undefined.

  The engine (three.js) and the page are not part of the repository. Their objects are
  records of the properties the module sets and reads. A method whose effect is a plain
  assignment (\<open>position.set\<close>, \<open>add\<close>, \<open>remove\<close>, \<open>appendChild\<close>, \<open>disconnect\<close>) is
  modelled by that assignment. \<open>AnimationMixer.update\<close> and \<open>WebGLRenderer.render\<close> are
  recorded on the object that receives them, with their arguments.

  \<open>OrbitControls.update\<close> moves the camera the controls steer. What it computes is the
  engine's arithmetic, in doubles through spherical coordinates, and is not code of the
  module; the state therefore carries it as a parameter \<open>orbit_update\<close>, the position the
  update leaves as a function of the controls object and of the position it finds. Every
  theorem on the states the module can reach holds for every such function. The function
  \<open>clamp_orbit\<close> below is one in exact arithmetic; the concrete runs use it.
\<close>

subsection \<open>Numbers\<close>

text \<open>
  A JavaScript number is a finite value, an infinity or NaN; the sign of zero is not
  modelled. A numeric literal of the source and a number the caller passes are kept as the
  value written. The arithmetic the module does itself is its two divisions (\<open>5/6\<close> and
  \<open>width / height\<close>), and a division gives a double: \<open>to_double\<close> rounds the exact quotient
  to the nearest value with a significand of 53 bits, ties to the even significand, with
  the least exponent -1022 (below it the spacing stays 2 to the -1074) and an infinity
  from 2 to the 1024 on.
\<close>

datatype number = Fin real | PosInf | NegInf | NaN

definition round_ties_even :: "real \<Rightarrow> int" where
  "round_ties_even x =
     (let f = \<lfloor>x\<rfloor> in
      if x - of_int f < 1 / 2 then f
      else if 1 / 2 < x - of_int f then f + 1
      else if even f then f else f + 1)"

definition to_double :: "real \<Rightarrow> number" where
  "to_double x =
     (if x = 0 then Fin 0
      else (let e = max \<lfloor>log 2 \<bar>x\<bar>\<rfloor> (- 1022);
                q = 2 powr (of_int e - 52);
                y = of_int (round_ties_even (x / q)) * q
            in if 2 ^ 1024 \<le> \<bar>y\<bar> then (if 0 < x then PosInf else NegInf) else Fin y))"

fun js_div :: "number \<Rightarrow> number \<Rightarrow> number" where
  "js_div NaN _ = NaN"
| "js_div _ NaN = NaN"
| "js_div (Fin a) (Fin b) =
     (if b = 0 then (if a = 0 then NaN else if 0 < a then PosInf else NegInf)
      else to_double (a / b))"
| "js_div (Fin a) _ = Fin 0"
| "js_div PosInf (Fin b) = (if b < 0 then NegInf else PosInf)"
| "js_div NegInf (Fin b) = (if b < 0 then PosInf else NegInf)"
| "js_div _ _ = NaN"

definition num_of_int :: "int \<Rightarrow> number" where
  "num_of_int i = Fin (of_int i)"

subsection \<open>Configuration\<close>

text \<open>The interfaces \<open>positionClass\<close> (fields x, y, z) and \<open>propsClass\<close>.\<close>

record positionClass =
  pos_x :: number
  pos_y :: number
  pos_z :: number

record propsClass =
  cameraPosition :: positionClass
  modelPath :: string
  scale :: number
  position :: positionClass

definition vec3 :: "number \<Rightarrow> number \<Rightarrow> number \<Rightarrow> positionClass" where
  "vec3 a b c = \<lparr>pos_x = a, pos_y = b, pos_z = c\<rparr>"

subsection \<open>Objects of the engine and of the host page\<close>

type_synonym ref = nat

record scene_obj =
  background :: "nat option"
  children :: "ref list"

datatype kind = AmbientLight nat number | DirectionalLight nat number | Group

record object3d =
  kind :: kind
  obj_position :: positionClass
  obj_scale :: positionClass

record camera_obj =
  fov :: number
  aspect :: number
  near :: number
  far :: number
  cam_position :: positionClass
  projectionMatrix :: "number \<times> number \<times> number \<times> number"

text \<open>
  The drawable surface of the renderer with reference \<open>r\<close> is the node \<open>Canvas r\<close>;
  \<open>parentNode\<close> is the element it is mounted in.
\<close>

record renderer_obj =
  antialias :: bool
  alpha :: bool
  pixelRatio :: number
  width :: number
  height :: number
  parentNode :: "nat option"
  disposed :: bool
  contextLost :: bool
  rendered :: "(ref \<times> ref) list"

record controls_obj =
  ctl_object :: ref
  domElement :: ref
  enableDamping :: bool
  dampingFactor :: number
  screenSpacePanning :: bool
  minDistance :: number
  maxDistance :: number
  target :: positionClass
  updates :: nat
  ctl_disposed :: bool

text \<open>
  What \<open>update()\<close> of the controls does to the position of the camera they steer: the
  position it leaves, given the controls object (its target, its distance limits, its
  damping, how often it was updated) and the position it finds.
\<close>

type_synonym orbit_law = "controls_obj \<Rightarrow> positionClass \<Rightarrow> positionClass"

type_synonym clip = nat

datatype loop_mode = LoopOnce | LoopRepeat | LoopPingPong

record action =
  clip :: clip
  loop :: loop_mode
  running :: bool

record mixer_obj =
  mixer_root :: ref
  actions :: "action list"
  steps :: "number list"

text \<open>
  A resize observer: the element its callback closes over, and the elements it watches.
\<close>

record observer_obj =
  callback_element :: nat
  observed :: "nat list"

datatype node = Canvas ref | Foreign nat

text \<open>
  An element of the page has a content box, in CSS pixels, and the integers the host gives
  as \<open>clientWidth\<close> and \<open>clientHeight\<close>: the size of its padding box (content and padding,
  without border and scroll bars), in whole pixels. The host computes them; the module only
  reads them.
\<close>

record element =
  isHTMLElement :: bool
  childNodes :: "node list"
  contentWidth :: real
  contentHeight :: real
  clientWidth :: int
  clientHeight :: int

record gltf =
  gltf_scene :: ref
  animations :: "clip list"

subsection \<open>The state\<close>

text \<open>
  The seven variables of the module, the store, and what the host holds for the module:
  the model loads in flight (the path asked for and the configuration the callback closed
  over), the number of animation frames requested and not yet run,
  \<open>window.devicePixelRatio\<close>, whether the page can get a WebGL context (when it cannot, the
  constructor of the renderer throws), and the engine's \<open>orbit_update\<close>.
\<close>

record world =
  scene :: "ref option"
  camera :: "ref option"
  renderer :: "ref option"
  controls :: "ref option"
  model :: "ref option"
  mixer :: "ref option"
  resizeObserver :: "ref option"
  scenes :: "ref \<Rightarrow> scene_obj"
  object3ds :: "ref \<Rightarrow> object3d"
  cameras :: "ref \<Rightarrow> camera_obj"
  renderers :: "ref \<Rightarrow> renderer_obj"
  orbitControls :: "ref \<Rightarrow> controls_obj"
  mixers :: "ref \<Rightarrow> mixer_obj"
  observers :: "ref \<Rightarrow> observer_obj"
  elements :: "nat \<Rightarrow> element"
  next_ref :: ref
  loads :: "(string \<times> propsClass) list"
  frames :: nat
  devicePixelRatio :: number
  webgl_available :: bool
  orbit_update :: orbit_law

text \<open>
  A call returns the new state, or raises: \<open>Inl\<close> carries the error and the state at
  the throw, which is the state the next handler sees.
\<close>

datatype error = TypeError | Error

type_synonym result = "(error \<times> world) + world"

definition returned :: "result \<Rightarrow> bool" where
  "returned r = (case r of Inl _ \<Rightarrow> False | Inr _ \<Rightarrow> True)"

definition state_of :: "result \<Rightarrow> world" where
  "state_of r = (case r of Inl (e, s) \<Rightarrow> s | Inr s \<Rightarrow> s)"

subsection \<open>Constructors and methods of the engine\<close>

text \<open>
  A constructor gives the object with the engine's defaults for the fields the module does
  not pass. The constructor of the renderer needs a WebGL context and throws an \<open>Error\<close>
  when the page gives none; \<open>init\<close> below makes that test before it calls \<open>createRenderer\<close>.
  The constructor of the controls ends with a call of \<open>update()\<close>.
  \<open>updateProjectionMatrix\<close> records the four parameters the projection was
  computed from. \<open>add\<close> appends a child (the objects the module adds are new, so none
  has a parent to leave) and \<open>remove\<close> takes out the first occurrence, as the engine's
  \<open>indexOf\<close> and \<open>splice\<close> do. \<open>appendChild\<close> mounts the canvas of a renderer in an
  element; \<open>domElement.remove()\<close> takes it out of the element it is mounted in.
\<close>

definition new_Scene :: scene_obj where
  "new_Scene = \<lparr>background = None, children = []\<rparr>"

definition new_PerspectiveCamera ::
  "number \<Rightarrow> number \<Rightarrow> number \<Rightarrow> number \<Rightarrow> camera_obj" where
  "new_PerspectiveCamera f a n fr =
     \<lparr>fov = f, aspect = a, near = n, far = fr,
      cam_position = vec3 (Fin 0) (Fin 0) (Fin 0),
      projectionMatrix = (f, a, n, fr)\<rparr>"

definition updateProjectionMatrix :: "camera_obj \<Rightarrow> camera_obj" where
  "updateProjectionMatrix c = c\<lparr>projectionMatrix := (fov c, aspect c, near c, far c)\<rparr>"

definition new_WebGLRenderer :: "bool \<Rightarrow> bool \<Rightarrow> renderer_obj" where
  "new_WebGLRenderer aa al =
     \<lparr>antialias = aa, alpha = al, pixelRatio = Fin 1, width = Fin 300, height = Fin 150,
      parentNode = None, disposed = False, contextLost = False, rendered = []\<rparr>"

definition OrbitControls_defaults :: "ref \<Rightarrow> ref \<Rightarrow> controls_obj" where
  "OrbitControls_defaults cam cv =
     \<lparr>ctl_object = cam, domElement = cv, enableDamping = False, dampingFactor = Fin (1 / 20),
      screenSpacePanning = True, minDistance = Fin 0, maxDistance = PosInf,
      target = vec3 (Fin 0) (Fin 0) (Fin 0), updates = 0, ctl_disposed = False\<rparr>"

definition new_AmbientLight :: "nat \<Rightarrow> number \<Rightarrow> object3d" where
  "new_AmbientLight c i =
     \<lparr>kind = AmbientLight c i, obj_position = vec3 (Fin 0) (Fin 0) (Fin 0),
      obj_scale = vec3 (Fin 1) (Fin 1) (Fin 1)\<rparr>"

definition new_DirectionalLight :: "nat \<Rightarrow> number \<Rightarrow> object3d" where
  "new_DirectionalLight c i =
     \<lparr>kind = DirectionalLight c i, obj_position = vec3 (Fin 0) (Fin 1) (Fin 0),
      obj_scale = vec3 (Fin 1) (Fin 1) (Fin 1)\<rparr>"

definition new_Group :: object3d where
  "new_Group =
     \<lparr>kind = Group, obj_position = vec3 (Fin 0) (Fin 0) (Fin 0),
      obj_scale = vec3 (Fin 1) (Fin 1) (Fin 1)\<rparr>"

definition is_light :: "object3d \<Rightarrow> bool" where
  "is_light ob = (case kind ob of Group \<Rightarrow> False | _ \<Rightarrow> True)"

definition Object3D_add :: "ref \<Rightarrow> ref \<Rightarrow> world \<Rightarrow> world" where
  "Object3D_add sc ob s =
     s\<lparr>scenes := (scenes s)(sc := (scenes s sc)\<lparr>children := children (scenes s sc) @ [ob]\<rparr>)\<rparr>"

definition Object3D_remove :: "ref \<Rightarrow> ref \<Rightarrow> world \<Rightarrow> world" where
  "Object3D_remove sc ob s =
     s\<lparr>scenes := (scenes s)(sc := (scenes s sc)\<lparr>children := remove1 ob (children (scenes s sc))\<rparr>)\<rparr>"

definition appendChild :: "nat \<Rightarrow> ref \<Rightarrow> world \<Rightarrow> world" where
  "appendChild el r s =
     s\<lparr>elements := (elements s)(el := (elements s el)\<lparr>childNodes := childNodes (elements s el) @ [Canvas r]\<rparr>),
       renderers := (renderers s)(r := (renderers s r)\<lparr>parentNode := Some el\<rparr>)\<rparr>"

definition domElement_remove :: "ref \<Rightarrow> world \<Rightarrow> world" where
  "domElement_remove r s =
     (case parentNode (renderers s r) of
        None \<Rightarrow> s
      | Some el \<Rightarrow>
          s\<lparr>elements := (elements s)(el := (elements s el)\<lparr>childNodes := removeAll (Canvas r) (childNodes (elements s el))\<rparr>),
            renderers := (renderers s)(r := (renderers s r)\<lparr>parentNode := None\<rparr>)\<rparr>)"

text \<open>
  \<open>controls.update()\<close> rewrites the position of the camera the controls were made for
  (their \<open>object\<close>, which need not be the camera the variable \<open>camera\<close> refers to now) and
  is counted on the controls. \<open>new OrbitControls(camera, domElement)\<close> makes the object
  with the defaults and runs its first update.
\<close>

definition OrbitControls_update :: "ref \<Rightarrow> world \<Rightarrow> world" where
  "OrbitControls_update c s =
     (let ctl = orbitControls s c; ob = ctl_object ctl;
          s1 = s\<lparr>cameras := (cameras s)(ob := (cameras s ob)
                  \<lparr>cam_position := orbit_update s ctl (cam_position (cameras s ob))\<rparr>)\<rparr>
      in s1\<lparr>orbitControls := (orbitControls s1)(c := ctl\<lparr>updates := updates ctl + 1\<rparr>)\<rparr>)"

definition new_OrbitControls :: "ref \<Rightarrow> ref \<Rightarrow> ref \<Rightarrow> world \<Rightarrow> world" where
  "new_OrbitControls c cam cv s =
     OrbitControls_update c (s\<lparr>orbitControls := (orbitControls s)(c := OrbitControls_defaults cam cv)\<rparr>)"

text \<open>
  One update law, in exact arithmetic: what the engine's \<open>update()\<close> computes for a camera
  that no pointer input is moving. The offset of the camera from the target keeps its
  direction, and its length is brought into the interval from \<open>minDistance\<close> to
  \<open>maxDistance\<close> (\<open>Math.max(minDistance, Math.min(maxDistance, length))\<close>); a camera on the
  target is put straight above it. The engine works in doubles and through the two angles
  of the offset, so what it leaves differs from this by rounding, and it keeps the offset
  a millionth of a radian off the vertical; neither is part of this law. Where a
  coordinate or a limit is not finite (an upper limit of +Infinity apart, which is the
  default) the law leaves the position as it is.
\<close>

definition fin3 :: "positionClass \<Rightarrow> (real \<times> real \<times> real) option" where
  "fin3 p =
     (case (pos_x p, pos_y p, pos_z p) of
        (Fin a, Fin b, Fin c) \<Rightarrow> Some (a, b, c)
      | _ \<Rightarrow> None)"

definition clampDistance :: "number \<Rightarrow> number \<Rightarrow> real \<Rightarrow> real option" where
  "clampDistance lo hi r =
     (case (lo, hi) of
        (Fin l, Fin h) \<Rightarrow> Some (max l (min h r))
      | (Fin l, PosInf) \<Rightarrow> Some (max l r)
      | _ \<Rightarrow> None)"

definition clamp_orbit :: orbit_law where
  "clamp_orbit c p =
     (case fin3 p of
        None \<Rightarrow> p
      | Some (x, y, z) \<Rightarrow>
         (case fin3 (target c) of
            None \<Rightarrow> p
          | Some (tx, ty, tz) \<Rightarrow>
             (let r = sqrt ((x - tx)\<^sup>2 + (y - ty)\<^sup>2 + (z - tz)\<^sup>2) in
              case clampDistance (minDistance c) (maxDistance c) r of
                None \<Rightarrow> p
              | Some r' \<Rightarrow>
                 if r = 0 then vec3 (Fin tx) (Fin (ty + r')) (Fin tz)
                 else vec3 (Fin (tx + (x - tx) * r' / r)) (Fin (ty + (y - ty) * r' / r))
                        (Fin (tz + (z - tz) * r' / r)))))"

definition AnimationMixer_update :: "ref \<Rightarrow> number \<Rightarrow> world \<Rightarrow> world" where
  "AnimationMixer_update mx dt s =
     s\<lparr>mixers := (mixers s)(mx := (mixers s mx)\<lparr>steps := steps (mixers s mx) @ [dt]\<rparr>)\<rparr>"

definition WebGLRenderer_render :: "ref \<Rightarrow> ref \<Rightarrow> ref \<Rightarrow> world \<Rightarrow> world" where
  "WebGLRenderer_render r sc cam s =
     s\<lparr>renderers := (renderers s)(r := (renderers s r)\<lparr>rendered := rendered (renderers s r) @ [(sc, cam)]\<rparr>)\<rparr>"

text \<open>
  \<open>mixer.clipAction(clip).play()\<close>: the action of the clip on the mixer's root is looked
  up, created in the default mode \<open>LoopRepeat\<close> when there is none, and started.
\<close>

definition clipAction_play :: "clip \<Rightarrow> action list \<Rightarrow> action list" where
  "clipAction_play c acts =
     (if c \<in> clip ` set acts
      then map (\<lambda>a. if clip a = c then a\<lparr>running := True\<rparr> else a) acts
      else acts @ [\<lparr>clip = c, loop = LoopRepeat, running = True\<rparr>])"

definition stopAllAction :: "mixer_obj \<Rightarrow> mixer_obj" where
  "stopAllAction m = m\<lparr>actions := map (\<lambda>a. a\<lparr>running := False\<rparr>) (actions m)\<rparr>"

definition uncacheRoot :: "ref \<Rightarrow> mixer_obj \<Rightarrow> mixer_obj" where
  "uncacheRoot rt m = (if mixer_root m = rt then m\<lparr>actions := []\<rparr> else m)"

subsection \<open>The functions of the module\<close>

text \<open>
  \<open>updateRendererSize\<close> (index.ts, lines 91 to 100): the guard on the element is always
  passed (an element is an object), the guards on renderer and camera are the two
  variables. The quotient is JavaScript's, on the two integers the element gives.
\<close>

definition updateRendererSize :: "nat \<Rightarrow> world \<Rightarrow> result" where
  "updateRendererSize containerElement s =
     (case renderer s of
        None \<Rightarrow> Inr s
      | Some r \<Rightarrow>
         (case camera s of
            None \<Rightarrow> Inr s
          | Some cam \<Rightarrow>
             (let w = num_of_int (clientWidth (elements s containerElement));
                  h = num_of_int (clientHeight (elements s containerElement));
                  s1 = s\<lparr>renderers := (renderers s)(r := (renderers s r)\<lparr>width := w, height := h\<rparr>)\<rparr>;
                  s2 = s1\<lparr>cameras := (cameras s1)(cam := (cameras s1 cam)\<lparr>aspect := js_div w h\<rparr>)\<rparr>;
                  s3 = s2\<lparr>cameras := (cameras s2)(cam := updateProjectionMatrix (cameras s2 cam))\<rparr>
              in Inr s3)))"

text \<open>
  \<open>loadModel\<close> (lines 106 to 122) hands the path and a callback to the loader and returns:
  the load is in flight. The callback has no error branch.
\<close>

definition loadModel :: "propsClass \<Rightarrow> world \<Rightarrow> world" where
  "loadModel props s = s\<lparr>loads := loads s @ [(modelPath props, props)]\<rparr>"

text \<open>
  The callback (lines 108 to 121), run when the asset is decoded. It reads the scene
  variable at that time and dereferences it without a guard.
\<close>

definition loadModel_onLoad :: "propsClass \<Rightarrow> gltf \<Rightarrow> world \<Rightarrow> result" where
  "loadModel_onLoad props g s =
     (let m = gltf_scene g;
          s1 = s\<lparr>model := Some m\<rparr>;
          s2 = s1\<lparr>object3ds := (object3ds s1)(m := (object3ds s1 m)\<lparr>obj_scale := vec3 (scale props) (scale props) (scale props)\<rparr>)\<rparr>;
          s3 = s2\<lparr>object3ds := (object3ds s2)(m := (object3ds s2 m)
                 \<lparr>obj_position := vec3 (pos_x (position props)) (pos_y (position props)) (pos_z (position props))\<rparr>)\<rparr>
      in case scene s3 of
           None \<Rightarrow> Inl (TypeError, s3)
         | Some sc \<Rightarrow>
            (let s4 = Object3D_add sc m s3;
                 mx = next_ref s4;
                 s5 = s4\<lparr>mixer := Some mx,
                         mixers := (mixers s4)(mx := \<lparr>mixer_root = m, actions = [], steps = []\<rparr>),
                         next_ref := mx + 1\<rparr>;
                 s6 = s5\<lparr>mixers := (mixers s5)(mx := (mixers s5 mx)
                        \<lparr>actions := foldl (\<lambda>acts c. clipAction_play c acts) (actions (mixers s5 mx)) (animations g)\<rparr>)\<rparr>
             in Inr s6))"

text \<open>
  \<open>animate\<close> (lines 127 to 137). \<open>mixer_tick\<close> is its statement
  \<open>if (mixer) mixer.update(0.016)\<close>. The renderer is dereferenced without a guard.
\<close>

definition mixer_tick :: "world \<Rightarrow> world" where
  "mixer_tick s =
     (case mixer s of
        None \<Rightarrow> s
      | Some mx \<Rightarrow> AnimationMixer_update mx (Fin (16 / 1000)) s)"

definition animate :: "world \<Rightarrow> result" where
  "animate s =
     (case controls s of
        None \<Rightarrow> Inr s
      | Some ctl \<Rightarrow>
         (case scene s of
            None \<Rightarrow> Inr s
          | Some sc \<Rightarrow>
             (case camera s of
                None \<Rightarrow> Inr s
              | Some cam \<Rightarrow>
                 (let s1 = s\<lparr>frames := frames s + 1\<rparr>;
                      s2 = OrbitControls_update ctl s1;
                      s3 = mixer_tick s2
                  in case renderer s3 of
                       None \<Rightarrow> Inl (TypeError, s3)
                     | Some r \<Rightarrow> Inr (WebGLRenderer_render r sc cam s3)))))"

text \<open>
  \<open>clearCurrentModel\<close> (lines 142 to 152); \<open>cleanup\<close> is the body of its \<open>if (model)\<close>. The
  scene is dereferenced without a guard, and neither variable is assigned.
\<close>

definition cleanup :: "ref \<Rightarrow> world \<Rightarrow> result" where
  "cleanup m s =
     (let s1 = (case mixer s of
                  None \<Rightarrow> s
                | Some mx \<Rightarrow>
                    s\<lparr>mixers := (mixers s)(mx := uncacheRoot m (stopAllAction (mixers s mx)))\<rparr>)
      in case scene s1 of
           None \<Rightarrow> Inl (TypeError, s1)
         | Some sc \<Rightarrow> Inr (Object3D_remove sc m s1))"

definition clearCurrentModel :: "world \<Rightarrow> result" where
  "clearCurrentModel s = (case model s of None \<Rightarrow> Inr s | Some m \<Rightarrow> cleanup m s)"

text \<open>
  \<open>modelPathstate\<close> (lines 160 to 174); \<open>reset_view\<close> is its block \<open>if (camera && controls)\<close>.
  An empty string is the only string that fails the test \<open>newPath && ...\<close>. The load is
  asked for with \<open>props\<close>; the new path is only tested.
\<close>

definition reset_view :: "propsClass \<Rightarrow> world \<Rightarrow> world" where
  "reset_view props s =
     (case camera s of
        None \<Rightarrow> s
      | Some cam \<Rightarrow>
         (case controls s of
            None \<Rightarrow> s
          | Some ctl \<Rightarrow>
             (let s1 = s\<lparr>cameras := (cameras s)(cam := (cameras s cam)
                         \<lparr>cam_position := vec3 (pos_x (cameraPosition props)) (pos_y (cameraPosition props))
                                               (pos_z (cameraPosition props))\<rparr>)\<rparr>;
                  s2 = s1\<lparr>cameras := (cameras s1)(cam := updateProjectionMatrix (cameras s1 cam))\<rparr>;
                  s3 = s2\<lparr>orbitControls := (orbitControls s2)(ctl := (orbitControls s2 ctl)
                         \<lparr>target := vec3 (Fin 0) (Fin 0) (Fin 0)\<rparr>)\<rparr>
              in OrbitControls_update ctl s3)))"

definition modelPathstate :: "string \<Rightarrow> string \<Rightarrow> propsClass \<Rightarrow> world \<Rightarrow> result" where
  "modelPathstate newPath oldPath props s =
     (if newPath \<noteq> [] \<and> newPath \<noteq> oldPath \<and> scene s \<noteq> None
      then (case clearCurrentModel s of
              Inl e \<Rightarrow> Inl e
            | Inr s1 \<Rightarrow> Inr (reset_view props (loadModel props s1)))
      else Inr s)"

text \<open>\<open>initResizeObserver\<close> (lines 180 to 192).\<close>

definition disconnect :: "observer_obj \<Rightarrow> observer_obj" where
  "disconnect ob = ob\<lparr>observed := []\<rparr>"

text \<open>The statement \<open>if (resizeObserver) resizeObserver.disconnect()\<close>.\<close>

definition disconnect_observer :: "world \<Rightarrow> world" where
  "disconnect_observer s =
     (case resizeObserver s of
        None \<Rightarrow> s
      | Some ro \<Rightarrow> s\<lparr>observers := (observers s)(ro := disconnect (observers s ro))\<rparr>)"

definition initResizeObserver :: "nat \<Rightarrow> world \<Rightarrow> world" where
  "initResizeObserver containerElement s =
     (let s1 = disconnect_observer s;
          ro = next_ref s1;
          s2 = s1\<lparr>resizeObserver := Some ro,
                  observers := (observers s1)(ro := \<lparr>callback_element = containerElement, observed = []\<rparr>),
                  next_ref := ro + 1\<rparr>
      in if isHTMLElement (elements s2 containerElement)
         then s2\<lparr>observers := (observers s2)(ro := (observers s2 ro)\<lparr>observed := [containerElement]\<rparr>)\<rparr>
         else s2)"

text \<open>
  \<open>init\<close> (lines 47 to 85) makes six objects; they get the next six references, and the
  observer \<open>initResizeObserver\<close> makes gets the seventh. Its statements are grouped as the
  source groups them by its comments: scene, camera, renderer, controls, lights. When the
  page gives no WebGL context, \<open>new THREE.WebGLRenderer\<close> (line 57) throws: scene and camera
  are assigned by then, and nothing after line 57 runs.
\<close>

definition createScene :: "ref \<Rightarrow> world \<Rightarrow> world" where
  "createScene sc s =
     (let s1 = s\<lparr>scene := Some sc, scenes := (scenes s)(sc := new_Scene)\<rparr>
      in s1\<lparr>scenes := (scenes s1)(sc := (scenes s1 sc)\<lparr>background := None\<rparr>)\<rparr>)"

definition createCamera :: "ref \<Rightarrow> propsClass \<Rightarrow> world \<Rightarrow> world" where
  "createCamera cam props s =
     (let s1 = s\<lparr>camera := Some cam,
                 cameras := (cameras s)(cam := new_PerspectiveCamera (Fin 75) (js_div (Fin 5) (Fin 6))
                                                 (Fin (1 / 10)) (Fin 1000))\<rparr>
      in s1\<lparr>cameras := (cameras s1)(cam := (cameras s1 cam)
             \<lparr>cam_position := vec3 (pos_x (cameraPosition props)) (pos_y (cameraPosition props))
                                   (pos_z (cameraPosition props))\<rparr>)\<rparr>)"

definition createRenderer :: "ref \<Rightarrow> nat \<Rightarrow> world \<Rightarrow> world" where
  "createRenderer r container s =
     (let s1 = s\<lparr>renderer := Some r, renderers := (renderers s)(r := new_WebGLRenderer True True)\<rparr>;
          s2 = s1\<lparr>renderers := (renderers s1)(r := (renderers s1 r)\<lparr>pixelRatio := devicePixelRatio s1\<rparr>)\<rparr>
      in appendChild container r s2)"

definition addControls :: "ref \<Rightarrow> ref \<Rightarrow> ref \<Rightarrow> world \<Rightarrow> world" where
  "addControls ctl cam r s =
     (let s1 = (new_OrbitControls ctl cam r s)\<lparr>controls := Some ctl\<rparr>
      in s1\<lparr>orbitControls := (orbitControls s1)(ctl := (orbitControls s1 ctl)
             \<lparr>enableDamping := True, dampingFactor := Fin (1 / 10), screenSpacePanning := False,
              minDistance := Fin 0, maxDistance := Fin 10\<rparr>)\<rparr>)"

definition addLights :: "ref \<Rightarrow> ref \<Rightarrow> ref \<Rightarrow> world \<Rightarrow> world" where
  "addLights sc ambientLight directionalLight s =
     (let s1 = s\<lparr>object3ds := (object3ds s)(ambientLight := new_AmbientLight 16777215 (Fin (1 / 2)))\<rparr>;
          s2 = Object3D_add sc ambientLight s1;
          s3 = s2\<lparr>object3ds := (object3ds s2)(directionalLight := new_DirectionalLight 16777215 (Fin 1))\<rparr>;
          s4 = s3\<lparr>object3ds := (object3ds s3)(directionalLight := (object3ds s3 directionalLight)
                 \<lparr>obj_position := vec3 (Fin 5) (Fin 5) (Fin 5)\<rparr>)\<rparr>
      in Object3D_add sc directionalLight s4)"

definition init :: "propsClass \<Rightarrow> nat \<Rightarrow> world \<Rightarrow> result" where
  "init props container s =
     (let sc = next_ref s; cam = sc + 1; r = sc + 2; ctl = sc + 3;
          ambientLight = sc + 4; directionalLight = sc + 5;
          s1 = createScene sc s;
          s2 = createCamera cam props s1
      in if \<not> webgl_available s2 then Inl (Error, s2\<lparr>next_ref := sc + 2\<rparr>)
         else (let s3 = createRenderer r container s2;
                   s4 = addControls ctl cam r s3;
                   s5 = addLights sc ambientLight directionalLight s4;
                   s6 = initResizeObserver container (s5\<lparr>next_ref := sc + 6\<rparr>);
                   s7 = loadModel props s6
               in animate s7))"

text \<open>
  \<open>allDestroyed\<close> (lines 197 to 225), in the blocks of the source: the observer, the model,
  the controls, the renderer, and the six assignments of undefined. There is no seventh:
  \<open>resizeObserver\<close> is not assigned.
\<close>

definition dispose_controls :: "world \<Rightarrow> world" where
  "dispose_controls s =
     (case controls s of
        None \<Rightarrow> s
      | Some ctl \<Rightarrow>
          s\<lparr>orbitControls := (orbitControls s)(ctl := (orbitControls s ctl)\<lparr>ctl_disposed := True\<rparr>)\<rparr>)"

definition dispose_renderer :: "world \<Rightarrow> world" where
  "dispose_renderer s =
     (case renderer s of
        None \<Rightarrow> s
      | Some r \<Rightarrow>
         (let t1 = s\<lparr>renderers := (renderers s)(r := (renderers s r)\<lparr>disposed := True\<rparr>)\<rparr>;
              t2 = t1\<lparr>renderers := (renderers t1)(r := (renderers t1 r)\<lparr>contextLost := True\<rparr>)\<rparr>
          in domElement_remove r t2))"

definition allDestroyed :: "world \<Rightarrow> result" where
  "allDestroyed s =
     (case clearCurrentModel (disconnect_observer s) of
        Inl e \<Rightarrow> Inl e
      | Inr s2 \<Rightarrow>
          Inr ((dispose_renderer (dispose_controls s2))
                 \<lparr>scene := None, camera := None, renderer := None, controls := None,
                  model := None, mixer := None\<rparr>))"

subsection \<open>What the host does\<close>

text \<open>
  Besides calling the four exported functions, the host runs a requested animation frame,
  completes or fails a load in flight, delivers a size change to an observer that is
  watching, lays an element out again (its content box and its client size), and gains or
  loses the ability to give a WebGL context. An event that cannot happen (no frame
  requested, no such load, an observer watching nothing) leaves the state as it is.
  A completed load brings a newly made subtree, so its reference is fresh.
\<close>

definition frame_tick :: "world \<Rightarrow> result" where
  "frame_tick s = (if frames s = 0 then Inr s else animate (s\<lparr>frames := frames s - 1\<rparr>))"

definition drop_nth :: "nat \<Rightarrow> 'a list \<Rightarrow> 'a list" where
  "drop_nth i xs = take i xs @ drop (Suc i) xs"

definition load_completed :: "nat \<Rightarrow> clip list \<Rightarrow> world \<Rightarrow> result" where
  "load_completed i clips s =
     (if i < length (loads s)
      then (let m = next_ref s;
                s1 = s\<lparr>loads := drop_nth i (loads s),
                       object3ds := (object3ds s)(m := new_Group),
                       next_ref := m + 1\<rparr>
            in loadModel_onLoad (snd (loads s ! i)) \<lparr>gltf_scene = m, animations = clips\<rparr> s1)
      else Inr s)"

definition load_failed :: "nat \<Rightarrow> world \<Rightarrow> result" where
  "load_failed i s = (if i < length (loads s) then Inr (s\<lparr>loads := drop_nth i (loads s)\<rparr>) else Inr s)"

definition resize_observed :: "ref \<Rightarrow> world \<Rightarrow> result" where
  "resize_observed ro s =
     (if observed (observers s ro) = [] then Inr s
      else updateRendererSize (callback_element (observers s ro)) s)"

definition layout :: "nat \<Rightarrow> real \<times> real \<Rightarrow> int \<Rightarrow> int \<Rightarrow> world \<Rightarrow> world" where
  "layout el content w h s =
     s\<lparr>elements := (elements s)(el := (elements s el)
          \<lparr>contentWidth := fst content, contentHeight := snd content,
           clientWidth := w, clientHeight := h\<rparr>)\<rparr>"

datatype event =
    Init propsClass nat
  | ModelPathstate string string propsClass
  | ClearCurrentModel
  | AllDestroyed
  | LoadCompleted nat "clip list"
  | LoadFailed nat
  | FrameTick
  | ResizeObserved ref
  | Layout nat "real \<times> real" int int
  | WebGLAvailable bool

fun step :: "event \<Rightarrow> world \<Rightarrow> result" where
  "step (Init props container) s = init props container s"
| "step (ModelPathstate newPath oldPath props) s = modelPathstate newPath oldPath props s"
| "step ClearCurrentModel s = clearCurrentModel s"
| "step AllDestroyed s = allDestroyed s"
| "step (LoadCompleted i clips) s = load_completed i clips s"
| "step (LoadFailed i) s = load_failed i s"
| "step FrameTick s = frame_tick s"
| "step (ResizeObserved ro) s = resize_observed ro s"
| "step (Layout el content w h) s = Inr (layout el content w h s)"
| "step (WebGLAvailable b) s = Inr (s\<lparr>webgl_available := b\<rparr>)"

fun run :: "event list \<Rightarrow> world \<Rightarrow> world" where
  "run [] s = s"
| "run (ev # evs) s = run evs (state_of (step ev s))"

text \<open>
  The state when the module is loaded, with the engine's \<open>orbit_update\<close> given: every
  variable undefined, an empty store, a page of empty elements of size zero that can give a
  WebGL context, nothing in flight.
\<close>

definition initial :: "orbit_law \<Rightarrow> world" where
  "initial law =
     \<lparr>scene = None, camera = None, renderer = None, controls = None, model = None, mixer = None,
      resizeObserver = None,
      scenes = (\<lambda>_. new_Scene),
      object3ds = (\<lambda>_. new_Group),
      cameras = (\<lambda>_. new_PerspectiveCamera (Fin 50) (Fin 1) (Fin (1 / 10)) (Fin 2000)),
      renderers = (\<lambda>_. new_WebGLRenderer False False),
      orbitControls = (\<lambda>_. OrbitControls_defaults 0 0),
      mixers = (\<lambda>_. \<lparr>mixer_root = 0, actions = [], steps = []\<rparr>),
      observers = (\<lambda>_. \<lparr>callback_element = 0, observed = []\<rparr>),
      elements = (\<lambda>_. \<lparr>isHTMLElement = True, childNodes = [], contentWidth = 0, contentHeight = 0,
                         clientWidth = 0, clientHeight = 0\<rparr>),
      next_ref = 0, loads = [], frames = 0, devicePixelRatio = Fin 1, webgl_available = True,
      orbit_update = law\<rparr>"

subsection \<open>Notions used in the statements\<close>

text \<open>
  The controls object as \<open>init\<close> has set it when the first tick updates it; the cameras
  after the two assignments of the reset block of \<open>modelPathstate\<close>; the actions a new
  mixer holds once every clip of an asset has been played; the mixer table after the
  actions of the model have been stopped and uncached; the state after the last three
  blocks of \<open>allDestroyed\<close>; the invariants of the states the module can reach; the two
  ways the seven variables can agree; and three sample configurations, the second with the
  camera 50 from the origin.
\<close>

definition configured :: "ref \<Rightarrow> ref \<Rightarrow> controls_obj" where
  "configured cam cv =
     \<lparr>ctl_object = cam, domElement = cv, enableDamping = True, dampingFactor = Fin (1 / 10),
      screenSpacePanning = False, minDistance = Fin 0, maxDistance = Fin 10,
      target = vec3 (Fin 0) (Fin 0) (Fin 0), updates = 1, ctl_disposed = False\<rparr>"

definition released :: "ref \<Rightarrow> world \<Rightarrow> ref \<Rightarrow> mixer_obj" where
  "released m s =
     (case mixer s of
        None \<Rightarrow> mixers s
      | Some mx \<Rightarrow> (mixers s)(mx := uncacheRoot m (stopAllAction (mixers s mx))))"

definition aimed :: "ref \<Rightarrow> propsClass \<Rightarrow> world \<Rightarrow> ref \<Rightarrow> camera_obj" where
  "aimed cam props s =
     (cameras s)(cam := (cameras s cam)
        \<lparr>cam_position := cameraPosition props,
         projectionMatrix := (fov (cameras s cam), aspect (cameras s cam), near (cameras s cam), far (cameras s cam))\<rparr>)"

definition teardown :: "world \<Rightarrow> world" where
  "teardown s =
     (dispose_renderer (dispose_controls s))
       \<lparr>scene := None, camera := None, renderer := None, controls := None, model := None, mixer := None\<rparr>"

definition clips_played :: "clip list \<Rightarrow> action list" where
  "clips_played clips = foldl (\<lambda>acts c. clipAction_play c acts) [] clips"

definition handles_inv :: "world \<Rightarrow> bool" where
  "handles_inv s =
     (((scene s = None \<and> camera s = None) \<or> (scene s \<noteq> None \<and> camera s \<noteq> None)) \<and>
      ((renderer s = None \<and> controls s = None) \<or>
       (renderer s \<noteq> None \<and> controls s \<noteq> None \<and> scene s \<noteq> None \<and> resizeObserver s \<noteq> None)) \<and>
      (mixer s \<noteq> None \<longrightarrow> model s \<noteq> None \<and> scene s \<noteq> None))"

definition store_inv :: "world \<Rightarrow> bool" where
  "store_inv s =
     ((\<forall>mx m. mixer s = Some mx \<longrightarrow> model s = Some m \<longrightarrow> mixer_root (mixers s mx) = m) \<and>
      (\<forall>r. distinct (children (scenes s r))) \<and>
      (\<forall>r. \<forall>c\<in>set (children (scenes s r)). c < next_ref s) \<and>
      (\<forall>e r. Canvas r \<in> set (childNodes (elements s e)) \<longrightarrow>
              r < next_ref s \<and> parentNode (renderers s r) = Some e))"

definition inv :: "world \<Rightarrow> bool" where
  "inv s = (handles_inv s \<and> store_inv s)"

definition props0 :: propsClass where
  "props0 = \<lparr>cameraPosition = vec3 (Fin 0) (Fin 0) (Fin 5), modelPath = ''m.glb'', scale = Fin 1,
             position = vec3 (Fin 0) (Fin 0) (Fin 0)\<rparr>"

definition props_far :: propsClass where
  "props_far = \<lparr>cameraPosition = vec3 (Fin 0) (Fin 0) (Fin 50), modelPath = ''b.glb'', scale = Fin 1,
                position = vec3 (Fin 0) (Fin 0) (Fin 0)\<rparr>"

definition all_undefined :: "world \<Rightarrow> bool" where
  "all_undefined s =
     (scene s = None \<and> camera s = None \<and> renderer s = None \<and> controls s = None \<and>
      model s = None \<and> mixer s = None \<and> resizeObserver s = None)"

definition all_defined :: "world \<Rightarrow> bool" where
  "all_defined s =
     (scene s \<noteq> None \<and> camera s \<noteq> None \<and> renderer s \<noteq> None \<and> controls s \<noteq> None \<and>
      model s \<noteq> None \<and> mixer s \<noteq> None \<and> resizeObserver s \<noteq> None)"

definition props_b :: propsClass where
  "props_b = props0\<lparr>modelPath := ''b.glb''\<rparr>"

section \<open>Rounding to a double\<close>

text \<open>
  \<open>to_double\<close> for a value whose significand is found by scaling with a power of two, and
  its value on the quotients the concrete runs compute.
\<close>

lemma round_ties_even_cases: "round_ties_even z = \<lfloor>z\<rfloor> \<or> round_ties_even z = \<lfloor>z\<rfloor> + 1"
  by (simp add: round_ties_even_def Let_def)

lemma round_ties_even_bound:
  assumes "\<bar>z\<bar> < real_of_int b"
  shows "\<bar>round_ties_even z\<bar> \<le> b"
proof -
  from assms have "real_of_int (- b) < z" "z < real_of_int b" by simp_all
  then have "- b \<le> \<lfloor>z\<rfloor>" "\<lfloor>z\<rfloor> < b"
    by (simp_all only: le_floor_iff floor_less_iff)
  then show ?thesis
    using round_ties_even_cases [of z] by linarith
qed

lemma to_double_scaled:
  assumes "2 ^ 52 \<le> \<bar>x\<bar> * 2 ^ k" and "\<bar>x\<bar> * 2 ^ k < 2 ^ 53" and "k \<le> 1074"
  shows "to_double x = Fin (of_int (round_ties_even (x * 2 ^ k)) / 2 ^ k)"
proof -
  have pos: "0 < \<bar>x\<bar>"
  proof (rule ccontr)
    assume "\<not> 0 < \<bar>x\<bar>"
    then have "x = 0" by simp
    with assms(1) show False by simp
  qed
  then have x0: "x \<noteq> 0" by simp
  have p1: "2 powr real_of_int (52 - int k) = 2 ^ 52 / 2 ^ k"
    by (simp add: powr_diff powr_realpow)
  have p2: "2 powr real_of_int (52 - int k + 1) = 2 ^ 53 / 2 ^ k"
    by (simp add: powr_diff powr_add powr_realpow)
  have "2 ^ 52 / 2 ^ k \<le> \<bar>x\<bar>" using assms(1) by (simp add: pos_divide_le_eq)
  moreover have "\<bar>x\<bar> < 2 ^ 53 / 2 ^ k" using assms(2) by (simp add: pos_less_divide_eq)
  ultimately have e: "\<lfloor>log 2 \<bar>x\<bar>\<rfloor> = 52 - int k"
    using pos by (simp only: floor_log_eq_powr_iff [of "\<bar>x\<bar>" 2] p1 p2)
  have m: "max (52 - int k) (- 1022) = 52 - int k" using assms(3) by simp
  have q: "2 powr - real k = 1 / 2 ^ k"
    by (simp add: powr_minus powr_realpow divide_simps)
  have "\<bar>x * 2 ^ k\<bar> < real_of_int (2 ^ 53)" using assms(2) by (simp add: abs_mult)
  then have "\<bar>round_ties_even (x * 2 ^ k)\<bar> \<le> 2 ^ 53"
    by (rule round_ties_even_bound)
  then have "real_of_int \<bar>round_ties_even (x * 2 ^ k)\<bar> \<le> real_of_int (2 ^ 53)"
    by (simp only: of_int_le_iff)
  then have "\<bar>real_of_int (round_ties_even (x * 2 ^ k))\<bar> \<le> 2 ^ 53"
    by simp
  moreover have "(1::real) \<le> 2 ^ k" by simp
  ultimately have "\<bar>real_of_int (round_ties_even (x * 2 ^ k))\<bar> * 1 \<le> 2 ^ 53 * 2 ^ k"
    by (intro mult_mono) simp_all
  then have "\<bar>real_of_int (round_ties_even (x * 2 ^ k))\<bar> / 2 ^ k \<le> 2 ^ 53"
    by (simp add: pos_divide_le_eq)
  then have small: "\<not> 2 ^ 1024 \<le> \<bar>real_of_int (round_ties_even (x * 2 ^ k)) / 2 ^ k\<bar>"
    by simp
  show ?thesis
    using x0 small by (simp add: to_double_def Let_def e m q)
qed

lemma to_double_samples:
  "to_double (4 / 3) = Fin (6004799503160661 / 4503599627370496)"
  "to_double (5 / 6) = Fin (7505999378950827 / 9007199254740992)"
  "to_double 2 = Fin 2"
  by (simp_all add: to_double_scaled [where k = 52] to_double_scaled [where k = 53]
      to_double_scaled [where k = 51] round_ties_even_def Let_def)

section \<open>Each function as one update of the state\<close>

text \<open>
  Every function of the module changes a few fields of the state. The lemmas of this
  section give each function, case by case, as one record update, so that what it leaves
  alone can be read off.
\<close>

lemma vec3_eta [simp]: "vec3 (pos_x p) (pos_y p) (pos_z p) = p"
  by (cases p) (simp add: vec3_def)

lemma createScene_eq:
  "createScene sc s = s\<lparr>scene := Some sc, scenes := (scenes s)(sc := \<lparr>background = None, children = []\<rparr>)\<rparr>"
  by (simp add: createScene_def Let_def new_Scene_def)

lemma createCamera_eq:
  "createCamera cam props s =
     s\<lparr>camera := Some cam,
       cameras := (cameras s)(cam :=
         \<lparr>fov = Fin 75, aspect = to_double (5 / 6), near = Fin (1 / 10), far = Fin 1000,
          cam_position = cameraPosition props,
          projectionMatrix = (Fin 75, to_double (5 / 6), Fin (1 / 10), Fin 1000)\<rparr>)\<rparr>"
  by (simp add: createCamera_def Let_def new_PerspectiveCamera_def)

lemma createRenderer_eq:
  "createRenderer r container s =
     s\<lparr>renderer := Some r,
       renderers := (renderers s)(r :=
         \<lparr>antialias = True, alpha = True, pixelRatio = devicePixelRatio s, width = Fin 300,
          height = Fin 150, parentNode = Some container, disposed = False, contextLost = False,
          rendered = []\<rparr>),
       elements := (elements s)(container := (elements s container)
         \<lparr>childNodes := childNodes (elements s container) @ [Canvas r]\<rparr>)\<rparr>"
  by (simp add: createRenderer_def Let_def new_WebGLRenderer_def appendChild_def)

lemma OrbitControls_update_eq:
  "OrbitControls_update c s =
     s\<lparr>cameras := (cameras s)(ctl_object (orbitControls s c) := (cameras s (ctl_object (orbitControls s c)))
          \<lparr>cam_position := orbit_update s (orbitControls s c)
                             (cam_position (cameras s (ctl_object (orbitControls s c))))\<rparr>),
       orbitControls := (orbitControls s)(c := (orbitControls s c)\<lparr>updates := updates (orbitControls s c) + 1\<rparr>)\<rparr>"
  by (simp add: OrbitControls_update_def Let_def)

lemma addControls_eq:
  "addControls ctl cam r s =
     s\<lparr>controls := Some ctl,
       cameras := (cameras s)(cam := (cameras s cam)
          \<lparr>cam_position := orbit_update s (OrbitControls_defaults cam r) (cam_position (cameras s cam))\<rparr>),
       orbitControls := (orbitControls s)(ctl := configured cam r)\<rparr>"
  by (simp add: addControls_def Let_def new_OrbitControls_def OrbitControls_update_eq
      OrbitControls_defaults_def configured_def)

lemma addLights_eq:
  "addLights sc a d s =
     s\<lparr>object3ds := (object3ds s)
         (a := \<lparr>kind = AmbientLight 16777215 (Fin (1 / 2)), obj_position = vec3 (Fin 0) (Fin 0) (Fin 0),
                obj_scale = vec3 (Fin 1) (Fin 1) (Fin 1)\<rparr>,
          d := \<lparr>kind = DirectionalLight 16777215 (Fin 1), obj_position = vec3 (Fin 5) (Fin 5) (Fin 5),
                obj_scale = vec3 (Fin 1) (Fin 1) (Fin 1)\<rparr>),
       scenes := (scenes s)(sc := (scenes s sc)\<lparr>children := children (scenes s sc) @ [a, d]\<rparr>)\<rparr>"
  by (simp add: addLights_def Let_def new_AmbientLight_def new_DirectionalLight_def Object3D_add_def)

lemma initResizeObserver_eq:
  "initResizeObserver c s =
     s\<lparr>resizeObserver := Some (next_ref s),
       observers := (case resizeObserver s of
                       None \<Rightarrow> observers s
                     | Some old \<Rightarrow> (observers s)(old := (observers s old)\<lparr>observed := []\<rparr>))
         (next_ref s := \<lparr>callback_element = c,
                         observed = (if isHTMLElement (elements s c) then [c] else [])\<rparr>),
       next_ref := next_ref s + 1\<rparr>"
  by (cases "resizeObserver s") (simp_all add: initResizeObserver_def disconnect_observer_def Let_def disconnect_def)

lemma mixer_tick_eq:
  "mixer_tick s =
     s\<lparr>mixers := (case mixer s of
                    None \<Rightarrow> mixers s
                  | Some mx \<Rightarrow> (mixers s)(mx := (mixers s mx)\<lparr>steps := steps (mixers s mx) @ [Fin (2 / 125)]\<rparr>))\<rparr>"
  by (cases "mixer s") (simp_all add: mixer_tick_def AnimationMixer_update_def)

lemma animate_eq:
  "controls s = Some ctl \<Longrightarrow> scene s = Some sc \<Longrightarrow> camera s = Some cam \<Longrightarrow> renderer s = Some r \<Longrightarrow>
   animate s =
     Inr (s\<lparr>frames := frames s + 1,
            cameras := (cameras s)(ctl_object (orbitControls s ctl) := (cameras s (ctl_object (orbitControls s ctl)))
               \<lparr>cam_position := orbit_update s (orbitControls s ctl)
                                  (cam_position (cameras s (ctl_object (orbitControls s ctl))))\<rparr>),
            orbitControls := (orbitControls s)(ctl := (orbitControls s ctl)\<lparr>updates := updates (orbitControls s ctl) + 1\<rparr>),
            mixers := (case mixer s of
                         None \<Rightarrow> mixers s
                       | Some mx \<Rightarrow> (mixers s)(mx := (mixers s mx)\<lparr>steps := steps (mixers s mx) @ [Fin (2 / 125)]\<rparr>)),
            renderers := (renderers s)(r := (renderers s r)\<lparr>rendered := rendered (renderers s r) @ [(sc, cam)]\<rparr>)\<rparr>)"
  by (simp add: animate_def Let_def mixer_tick_eq OrbitControls_update_eq WebGLRenderer_render_def
      cong: option.case_cong)

lemma animate_idle:
  "controls s = None \<or> scene s = None \<or> camera s = None \<Longrightarrow> animate s = Inr s"
  by (auto simp: animate_def split: option.split)

lemma init_raise:
  "\<not> webgl_available s \<Longrightarrow>
   init props container s =
     Inl (Error,
          s\<lparr>scene := Some (next_ref s), camera := Some (next_ref s + 1),
            scenes := (scenes s)(next_ref s := \<lparr>background = None, children = []\<rparr>),
            cameras := (cameras s)(next_ref s + 1 :=
              \<lparr>fov = Fin 75, aspect = to_double (5 / 6), near = Fin (1 / 10), far = Fin 1000,
               cam_position = cameraPosition props,
               projectionMatrix = (Fin 75, to_double (5 / 6), Fin (1 / 10), Fin 1000)\<rparr>),
            next_ref := next_ref s + 2\<rparr>)"
  by (simp add: init_def Let_def createScene_eq createCamera_eq)

lemma init_eq:
  "webgl_available s \<Longrightarrow>
   init props container s =
     Inr (s\<lparr>scene := Some (next_ref s), camera := Some (next_ref s + 1), renderer := Some (next_ref s + 2),
            controls := Some (next_ref s + 3), resizeObserver := Some (next_ref s + 6),
            scenes := (scenes s)(next_ref s := \<lparr>background = None, children = [next_ref s + 4, next_ref s + 5]\<rparr>),
            object3ds := (object3ds s)
              (next_ref s + 4 := \<lparr>kind = AmbientLight 16777215 (Fin (1 / 2)),
                                  obj_position = vec3 (Fin 0) (Fin 0) (Fin 0),
                                  obj_scale = vec3 (Fin 1) (Fin 1) (Fin 1)\<rparr>,
               next_ref s + 5 := \<lparr>kind = DirectionalLight 16777215 (Fin 1),
                                  obj_position = vec3 (Fin 5) (Fin 5) (Fin 5),
                                  obj_scale = vec3 (Fin 1) (Fin 1) (Fin 1)\<rparr>),
            cameras := (cameras s)(next_ref s + 1 :=
              \<lparr>fov = Fin 75, aspect = to_double (5 / 6), near = Fin (1 / 10), far = Fin 1000,
               cam_position =
                 orbit_update s (configured (next_ref s + 1) (next_ref s + 2))
                   (orbit_update s (OrbitControls_defaults (next_ref s + 1) (next_ref s + 2))
                      (cameraPosition props)),
               projectionMatrix = (Fin 75, to_double (5 / 6), Fin (1 / 10), Fin 1000)\<rparr>),
            renderers := (renderers s)(next_ref s + 2 :=
              \<lparr>antialias = True, alpha = True, pixelRatio = devicePixelRatio s, width = Fin 300,
               height = Fin 150, parentNode = Some container, disposed = False, contextLost = False,
               rendered = [(next_ref s, next_ref s + 1)]\<rparr>),
            orbitControls := (orbitControls s)(next_ref s + 3 :=
              (configured (next_ref s + 1) (next_ref s + 2))\<lparr>updates := 2\<rparr>),
            mixers := (case mixer s of
                         None \<Rightarrow> mixers s
                       | Some mx \<Rightarrow> (mixers s)(mx := (mixers s mx)\<lparr>steps := steps (mixers s mx) @ [Fin (2 / 125)]\<rparr>)),
            observers := (case resizeObserver s of
                            None \<Rightarrow> observers s
                          | Some old \<Rightarrow> (observers s)(old := (observers s old)\<lparr>observed := []\<rparr>))
              (next_ref s + 6 := \<lparr>callback_element = container,
                                  observed = (if isHTMLElement (elements s container) then [container] else [])\<rparr>),
            elements := (elements s)(container := (elements s container)
              \<lparr>childNodes := childNodes (elements s container) @ [Canvas (next_ref s + 2)]\<rparr>),
            next_ref := next_ref s + 7,
            loads := loads s @ [(modelPath props, props)],
            frames := frames s + 1\<rparr>)"
proof -
  assume w: "webgl_available s"
  define t where "t = loadModel props (initResizeObserver container
      ((addLights (next_ref s) (next_ref s + 4) (next_ref s + 5)
         (addControls (next_ref s + 3) (next_ref s + 1) (next_ref s + 2)
           (createRenderer (next_ref s + 2) container
             (createCamera (next_ref s + 1) props (createScene (next_ref s) s)))))
       \<lparr>next_ref := next_ref s + 6\<rparr>))"
  have unfold: "init props container s = animate t"
    using w by (simp add: init_def Let_def t_def createScene_eq createCamera_eq)
  have handles: "controls t = Some (next_ref s + 3)" "scene t = Some (next_ref s)"
    "camera t = Some (next_ref s + 1)" "renderer t = Some (next_ref s + 2)"
    by (simp_all add: t_def createScene_eq createCamera_eq createRenderer_eq addControls_eq addLights_eq
        initResizeObserver_eq loadModel_def)
  show ?thesis
    unfolding unfold animate_eq [OF handles]
    by (simp add: t_def createScene_eq createCamera_eq createRenderer_eq addControls_eq addLights_eq
        initResizeObserver_eq loadModel_def configured_def numeral_2_eq_2 cong: option.case_cong)
qed

lemma disconnect_observer_eq:
  "disconnect_observer s =
     s\<lparr>observers := (case resizeObserver s of
                       None \<Rightarrow> observers s
                     | Some ro \<Rightarrow> (observers s)(ro := (observers s ro)\<lparr>observed := []\<rparr>))\<rparr>"
  by (cases "resizeObserver s") (simp_all add: disconnect_observer_def disconnect_def)

lemma dispose_controls_eq:
  "dispose_controls s =
     s\<lparr>orbitControls := (case controls s of
                           None \<Rightarrow> orbitControls s
                         | Some ctl \<Rightarrow> (orbitControls s)(ctl := (orbitControls s ctl)\<lparr>ctl_disposed := True\<rparr>))\<rparr>"
  by (cases "controls s") (simp_all add: dispose_controls_def)

lemma parentNode_None_upd: "parentNode x = None \<Longrightarrow> x\<lparr>parentNode := None\<rparr> = x"
  by (cases x) simp

lemma dispose_renderer_eq:
  "dispose_renderer s =
     s\<lparr>renderers := (case renderer s of
                       None \<Rightarrow> renderers s
                     | Some r \<Rightarrow> (renderers s)(r := (renderers s r)
                          \<lparr>disposed := True, contextLost := True, parentNode := None\<rparr>)),
       elements := (case renderer s of
                      None \<Rightarrow> elements s
                    | Some r \<Rightarrow>
                       (case parentNode (renderers s r) of
                          None \<Rightarrow> elements s
                        | Some el \<Rightarrow> (elements s)(el := (elements s el)
                            \<lparr>childNodes := removeAll (Canvas r) (childNodes (elements s el))\<rparr>)))\<rparr>"
proof (cases "renderer s")
  case None
  then show ?thesis by (simp add: dispose_renderer_def)
next
  case (Some r)
  show ?thesis
  proof (cases "parentNode (renderers s r)")
    case None
    with Some show ?thesis
      by (simp add: dispose_renderer_def domElement_remove_def Let_def parentNode_None_upd)
  next
    case (Some el)
    with \<open>renderer s = Some r\<close> show ?thesis
      by (simp add: dispose_renderer_def domElement_remove_def Let_def)
  qed
qed

lemma clear_none: "model s = None \<Longrightarrow> clearCurrentModel s = Inr s"
  by (simp add: clearCurrentModel_def)

lemma clear_ok:
  "model s = Some m \<Longrightarrow> scene s = Some sc \<Longrightarrow>
   clearCurrentModel s =
     Inr (s\<lparr>mixers := released m s,
            scenes := (scenes s)(sc := (scenes s sc)\<lparr>children := remove1 m (children (scenes s sc))\<rparr>)\<rparr>)"
  by (cases "mixer s") (simp_all add: clearCurrentModel_def cleanup_def Let_def Object3D_remove_def released_def)

lemma clear_raise:
  "model s = Some m \<Longrightarrow> scene s = None \<Longrightarrow>
   clearCurrentModel s = Inl (TypeError, s\<lparr>mixers := released m s\<rparr>)"
  by (cases "mixer s") (simp_all add: clearCurrentModel_def cleanup_def Let_def released_def)

lemma updateRendererSize_eq:
  "renderer s = Some r \<Longrightarrow> camera s = Some cam \<Longrightarrow>
   updateRendererSize el s =
     Inr (s\<lparr>renderers := (renderers s)(r := (renderers s r)
               \<lparr>width := num_of_int (clientWidth (elements s el)),
                height := num_of_int (clientHeight (elements s el))\<rparr>),
            cameras := (cameras s)(cam := (cameras s cam)
               \<lparr>aspect := js_div (num_of_int (clientWidth (elements s el))) (num_of_int (clientHeight (elements s el))),
                projectionMatrix := (fov (cameras s cam),
                   js_div (num_of_int (clientWidth (elements s el))) (num_of_int (clientHeight (elements s el))),
                   near (cameras s cam), far (cameras s cam))\<rparr>)\<rparr>)"
  by (simp add: updateRendererSize_def Let_def updateProjectionMatrix_def)

lemma updateRendererSize_idle:
  "renderer s = None \<or> camera s = None \<Longrightarrow> updateRendererSize el s = Inr s"
  by (auto simp: updateRendererSize_def split: option.split)

lemma reset_view_eq:
  "camera s = Some cam \<Longrightarrow> controls s = Some ctl \<Longrightarrow>
   reset_view props s =
     s\<lparr>cameras := (aimed cam props s)(ctl_object (orbitControls s ctl) :=
          (aimed cam props s (ctl_object (orbitControls s ctl)))
            \<lparr>cam_position := orbit_update s ((orbitControls s ctl)\<lparr>target := vec3 (Fin 0) (Fin 0) (Fin 0)\<rparr>)
                               (cam_position (aimed cam props s (ctl_object (orbitControls s ctl))))\<rparr>),
       orbitControls := (orbitControls s)(ctl := (orbitControls s ctl)
          \<lparr>target := vec3 (Fin 0) (Fin 0) (Fin 0), updates := updates (orbitControls s ctl) + 1\<rparr>)\<rparr>"
  by (simp add: reset_view_def Let_def updateProjectionMatrix_def OrbitControls_update_eq aimed_def)

lemma reset_view_idle:
  "camera s = None \<or> controls s = None \<Longrightarrow> reset_view props s = s"
  by (auto simp: reset_view_def split: option.split)

lemma result_eq_Inr: "(r = Inr s') = (returned r \<and> state_of r = s')"
  by (cases r) (auto simp: returned_def state_of_def)

lemma returned_Inr [simp]: "returned (Inr s)" "\<not> returned (Inl e)"
  by (simp_all add: returned_def)

lemma state_of_simps [simp]: "state_of (Inr s) = s" "state_of (Inl (e, s)) = s"
  by (simp_all add: state_of_def)

lemma clear_returned: "returned (clearCurrentModel s) = (model s = None \<or> scene s \<noteq> None)"
  by (cases "model s"; cases "scene s") (simp_all add: clear_none clear_ok clear_raise)

lemma clear_state:
  "state_of (clearCurrentModel s) =
     s\<lparr>mixers := (case model s of None \<Rightarrow> mixers s | Some m \<Rightarrow> released m s),
       scenes := (case model s of
                    None \<Rightarrow> scenes s
                  | Some m \<Rightarrow>
                     (case scene s of
                        None \<Rightarrow> scenes s
                      | Some sc \<Rightarrow> (scenes s)(sc := (scenes s sc)\<lparr>children := remove1 m (children (scenes s sc))\<rparr>)))\<rparr>"
  by (cases "model s"; cases "scene s") (simp_all add: clear_none clear_ok clear_raise)

lemma allDestroyed_alt:
  "allDestroyed s =
     (if returned (clearCurrentModel (disconnect_observer s))
      then Inr (teardown (state_of (clearCurrentModel (disconnect_observer s))))
      else clearCurrentModel (disconnect_observer s))"
  by (cases "clearCurrentModel (disconnect_observer s)") (simp_all add: allDestroyed_def teardown_def)

lemma allDestroyed_returned: "returned (allDestroyed s) = (model s = None \<or> scene s \<noteq> None)"
  by (simp add: allDestroyed_alt clear_returned disconnect_observer_eq)

lemma modelPathstate_idle:
  "newPath = [] \<or> newPath = oldPath \<or> scene s = None \<Longrightarrow> modelPathstate newPath oldPath props s = Inr s"
  by (auto simp: modelPathstate_def)

lemma modelPathstate_eq:
  assumes "newPath \<noteq> []" "newPath \<noteq> oldPath" "scene s \<noteq> None"
  shows "modelPathstate newPath oldPath props s =
           Inr (reset_view props ((state_of (clearCurrentModel s))\<lparr>loads := loads s @ [(modelPath props, props)]\<rparr>))"
proof -
  from assms(3) have "returned (clearCurrentModel s)" by (simp add: clear_returned)
  then obtain s1 where s1: "clearCurrentModel s = Inr s1"
    by (cases "clearCurrentModel s") simp_all
  have "loads s1 = loads s" using s1 clear_state [of s] by (simp add: s1)
  with assms s1 show ?thesis
    by (simp add: modelPathstate_def loadModel_def)
qed

lemma onLoad_ok:
  "scene s = Some sc \<Longrightarrow>
   loadModel_onLoad props g s =
     Inr (s\<lparr>model := Some (gltf_scene g),
            object3ds := (object3ds s)(gltf_scene g := (object3ds s (gltf_scene g))
               \<lparr>obj_scale := vec3 (scale props) (scale props) (scale props),
                obj_position := position props\<rparr>),
            scenes := (scenes s)(sc := (scenes s sc)\<lparr>children := children (scenes s sc) @ [gltf_scene g]\<rparr>),
            mixer := Some (next_ref s),
            mixers := (mixers s)(next_ref s :=
               \<lparr>mixer_root = gltf_scene g, actions = clips_played (animations g), steps = []\<rparr>),
            next_ref := next_ref s + 1\<rparr>)"
  by (simp add: loadModel_onLoad_def Let_def Object3D_add_def clips_played_def)

lemma onLoad_raise:
  "scene s = None \<Longrightarrow>
   loadModel_onLoad props g s =
     Inl (TypeError,
          s\<lparr>model := Some (gltf_scene g),
            object3ds := (object3ds s)(gltf_scene g := (object3ds s (gltf_scene g))
               \<lparr>obj_scale := vec3 (scale props) (scale props) (scale props),
                obj_position := position props\<rparr>)\<rparr>)"
  by (simp add: loadModel_onLoad_def Let_def)

lemma load_completed_idle: "\<not> i < length (loads s) \<Longrightarrow> load_completed i clips s = Inr s"
  by (simp add: load_completed_def)

lemma load_completed_ok:
  "i < length (loads s) \<Longrightarrow> scene s = Some sc \<Longrightarrow>
   load_completed i clips s =
     Inr (s\<lparr>loads := drop_nth i (loads s),
            model := Some (next_ref s),
            object3ds := (object3ds s)(next_ref s :=
               \<lparr>kind = Group, obj_position = position (snd (loads s ! i)),
                obj_scale = vec3 (scale (snd (loads s ! i))) (scale (snd (loads s ! i))) (scale (snd (loads s ! i)))\<rparr>),
            scenes := (scenes s)(sc := (scenes s sc)\<lparr>children := children (scenes s sc) @ [next_ref s]\<rparr>),
            mixer := Some (next_ref s + 1),
            mixers := (mixers s)(next_ref s + 1 :=
               \<lparr>mixer_root = next_ref s, actions = clips_played clips, steps = []\<rparr>),
            next_ref := next_ref s + 2\<rparr>)"
  by (simp add: load_completed_def Let_def onLoad_ok new_Group_def)

lemma load_completed_raise:
  "i < length (loads s) \<Longrightarrow> scene s = None \<Longrightarrow>
   load_completed i clips s =
     Inl (TypeError,
          s\<lparr>loads := drop_nth i (loads s),
            model := Some (next_ref s),
            object3ds := (object3ds s)(next_ref s :=
               \<lparr>kind = Group, obj_position = position (snd (loads s ! i)),
                obj_scale = vec3 (scale (snd (loads s ! i))) (scale (snd (loads s ! i))) (scale (snd (loads s ! i)))\<rparr>),
            next_ref := next_ref s + 1\<rparr>)"
  by (simp add: load_completed_def Let_def onLoad_raise new_Group_def)

lemma inv_initial: "inv (initial law)"
  by (simp add: inv_def handles_inv_def store_inv_def initial_def new_Scene_def)

lemma handles_init: "handles_inv s \<Longrightarrow> handles_inv (state_of (init props c s))"
  by (cases "webgl_available s") (auto simp: handles_inv_def init_eq init_raise)

lemma store_init: "store_inv s \<Longrightarrow> store_inv (state_of (init props c s))"
proof (cases "webgl_available s")
  case True
  assume "store_inv s"
  then show ?thesis
    unfolding store_inv_def init_eq [OF True] state_of_simps
    apply (intro conjI)
       apply simp
      apply simp
     apply (simp, fastforce)
    apply (simp, fastforce)
    done
next
  case False
  assume "store_inv s"
  then show ?thesis
    unfolding store_inv_def init_raise [OF False] state_of_simps
    apply (intro conjI)
       apply simp
      apply simp
     apply (simp, fastforce)
    apply (simp, fastforce)
    done
qed

section \<open>Invariants of the reachable states\<close>

text \<open>
  \<open>handles_inv\<close> and \<open>store_inv\<close> hold initially, whatever the update law, and are kept by
  every event, whether the handler returns or raises.
\<close>

lemma mixer_root_released [simp]:
  "mixer_root (released m s mx) = mixer_root (mixers s mx)"
  by (simp add: released_def uncacheRoot_def stopAllAction_def split: option.split)

lemma handles_clear: "handles_inv (state_of (clearCurrentModel s)) = handles_inv s"
  by (simp add: handles_inv_def clear_state)

lemma store_clear: "store_inv s \<Longrightarrow> store_inv (state_of (clearCurrentModel s))"
  unfolding store_inv_def clear_state
  apply (intro conjI)
  subgoal by (simp split: option.split)
  subgoal by (simp split: option.split)
  subgoal by (auto split: option.split dest: notin_set_remove1)
  subgoal by simp
  done

lemma handles_reset_view: "handles_inv (reset_view props s) = handles_inv s"
  by (cases "camera s"; cases "controls s") (simp_all add: reset_view_eq reset_view_idle handles_inv_def)

lemma store_reset_view: "store_inv (reset_view props s) = store_inv s"
  by (cases "camera s"; cases "controls s") (simp_all add: reset_view_eq reset_view_idle store_inv_def)

lemma handles_loads_upd [simp]: "handles_inv (s\<lparr>loads := l\<rparr>) = handles_inv s"
  by (simp add: handles_inv_def)

lemma store_loads_upd [simp]: "store_inv (s\<lparr>loads := l\<rparr>) = store_inv s"
  by (simp add: store_inv_def)

lemma inv_modelPathstate: "inv s \<Longrightarrow> inv (state_of (modelPathstate newPath oldPath props s))"
proof (cases "newPath \<noteq> [] \<and> newPath \<noteq> oldPath \<and> scene s \<noteq> None")
  case True
  assume "inv s"
  with True show ?thesis
    by (simp add: modelPathstate_eq inv_def handles_reset_view store_reset_view handles_clear store_clear)
next
  case False
  assume "inv s"
  with False show ?thesis
    by (simp add: modelPathstate_idle)
qed

lemma handles_teardown: "handles_inv (teardown s)"
  by (simp add: handles_inv_def teardown_def)

lemma store_teardown: "store_inv s \<Longrightarrow> store_inv (teardown s)"
  unfolding store_inv_def teardown_def dispose_renderer_eq dispose_controls_eq
  apply (intro conjI)
  subgoal by simp
  subgoal by simp
  subgoal by simp
  subgoal by (auto split: option.splits)
  done

lemma handles_disconnect [simp]: "handles_inv (disconnect_observer s) = handles_inv s"
  by (simp add: handles_inv_def disconnect_observer_eq)

lemma store_disconnect [simp]: "store_inv (disconnect_observer s) = store_inv s"
  by (simp add: store_inv_def disconnect_observer_eq)

lemma inv_allDestroyed: "inv s \<Longrightarrow> inv (state_of (allDestroyed s))"
  by (simp add: allDestroyed_alt inv_def handles_teardown store_teardown handles_clear store_clear)

lemma inv_load_completed: "inv s \<Longrightarrow> inv (state_of (load_completed i clips s))"
proof (cases "i < length (loads s)")
  case False
  assume "inv s"
  with False show ?thesis by (simp add: load_completed_idle)
next
  case True
  assume a: "inv s"
  show ?thesis
  proof (cases "scene s")
    case None
    with a have "mixer s = None" by (auto simp: inv_def handles_inv_def)
    with a None True show ?thesis
      unfolding inv_def handles_inv_def store_inv_def
      by (auto simp: load_completed_raise less_Suc_eq)
  next
    case (Some sc)
    with a True show ?thesis
      unfolding inv_def handles_inv_def store_inv_def
      apply (simp add: load_completed_ok)
      apply (intro conjI allI impI)
      apply (auto simp: less_Suc_eq)
      done
  qed
qed

lemma inv_load_failed: "inv s \<Longrightarrow> inv (state_of (load_failed i s))"
  by (simp add: load_failed_def inv_def)

lemma inv_animate: "inv s \<Longrightarrow> inv (state_of (animate s))"
proof (cases "controls s = None \<or> scene s = None \<or> camera s = None")
  case True
  assume "inv s"
  with True show ?thesis by (simp add: animate_idle)
next
  case False
  assume a: "inv s"
  with False obtain ctl sc cam r where h: "controls s = Some ctl" "scene s = Some sc" "camera s = Some cam"
    "renderer s = Some r"
    by (auto simp: inv_def handles_inv_def)
  from a show ?thesis
    unfolding inv_def handles_inv_def store_inv_def animate_eq [OF h] state_of_simps
    by (auto split: option.split)
qed

lemma inv_frames_upd [simp]: "inv (s\<lparr>frames := n\<rparr>) = inv s"
  by (simp add: inv_def handles_inv_def store_inv_def)

lemma inv_frame_tick: "inv s \<Longrightarrow> inv (state_of (frame_tick s))"
  by (simp add: frame_tick_def inv_animate)

lemma inv_updateRendererSize: "inv s \<Longrightarrow> inv (state_of (updateRendererSize el s))"
proof (cases "renderer s = None \<or> camera s = None")
  case True
  assume "inv s"
  with True show ?thesis by (simp add: updateRendererSize_idle)
next
  case False
  assume a: "inv s"
  from False obtain r cam where h: "renderer s = Some r" "camera s = Some cam" by auto
  from a show ?thesis
    unfolding inv_def handles_inv_def store_inv_def updateRendererSize_eq [OF h] state_of_simps
    by auto
qed

lemma inv_resize_observed: "inv s \<Longrightarrow> inv (state_of (resize_observed ro s))"
  by (simp add: resize_observed_def inv_updateRendererSize)

lemma inv_layout: "inv s \<Longrightarrow> inv (layout el content w h s)"
  by (simp add: inv_def handles_inv_def store_inv_def layout_def)

lemma inv_webgl_upd [simp]: "inv (s\<lparr>webgl_available := b\<rparr>) = inv s"
  by (simp add: inv_def handles_inv_def store_inv_def)

lemma inv_init: "inv s \<Longrightarrow> inv (state_of (init props c s))"
  by (simp add: inv_def handles_init store_init)

lemma inv_clear: "inv s \<Longrightarrow> inv (state_of (clearCurrentModel s))"
  by (simp add: inv_def handles_clear store_clear)

lemma inv_step: "inv s \<Longrightarrow> inv (state_of (step ev s))"
  by (cases ev) (simp_all add: inv_init inv_modelPathstate inv_clear inv_allDestroyed inv_load_completed
      inv_load_failed inv_frame_tick inv_resize_observed inv_layout)

lemma inv_run_from: "inv s \<Longrightarrow> inv (run evs s)"
  by (induction evs arbitrary: s) (simp_all add: inv_step)

lemma inv_run: "inv (run evs (initial law))"
  by (rule inv_run_from [OF inv_initial])

section \<open>Lemmas for the claims\<close>

text \<open>
  Facts about single functions that the claims combine, and the values of the variables in
  the sample runs the concrete theorems use.
\<close>

lemma run_init0:
  "run [Init props0 0] (initial law) = state_of (init props0 0 (initial law))"
  by simp

lemma active_handles:
  "scene (state_of (init props0 0 (initial law))) = Some 0"
  "camera (state_of (init props0 0 (initial law))) = Some 1"
  "renderer (state_of (init props0 0 (initial law))) = Some 2"
  "controls (state_of (init props0 0 (initial law))) = Some 3"
  "model (state_of (init props0 0 (initial law))) = None"
  "mixer (state_of (init props0 0 (initial law))) = None"
  "resizeObserver (state_of (init props0 0 (initial law))) = Some 6"
  "loads (state_of (init props0 0 (initial law))) = [(''m.glb'', props0)]"
  "next_ref (state_of (init props0 0 (initial law))) = 7"
  by (simp_all add: init_eq initial_def props0_def)

lemma loaded_handles:
  "scene (state_of (load_completed 0 [10, 11] (state_of (init props0 0 (initial law))))) = Some 0"
  "model (state_of (load_completed 0 [10, 11] (state_of (init props0 0 (initial law))))) = Some 7"
  "mixer (state_of (load_completed 0 [10, 11] (state_of (init props0 0 (initial law))))) = Some 8"
  by (simp_all add: load_completed_ok [where sc = 0] active_handles)

lemma loaded_more:
  "camera (state_of (load_completed 0 [10, 11] (state_of (init props0 0 (initial law))))) = Some 1"
  "renderer (state_of (load_completed 0 [10, 11] (state_of (init props0 0 (initial law))))) = Some 2"
  "controls (state_of (load_completed 0 [10, 11] (state_of (init props0 0 (initial law))))) = Some 3"
  "resizeObserver (state_of (load_completed 0 [10, 11] (state_of (init props0 0 (initial law))))) = Some 6"
  "loads (state_of (load_completed 0 [10, 11] (state_of (init props0 0 (initial law))))) = []"
  by (simp_all add: load_completed_ok [where sc = 0] active_handles drop_nth_def)

lemma sqrt_samples: "sqrt 25 = 5" "sqrt 2500 = 50"
  by (rule real_sqrt_unique; simp)+

lemma clamp_orbit_configured:
  assumes "target c = vec3 (Fin 0) (Fin 0) (Fin 0)" and "minDistance c = Fin 0" and "maxDistance c = Fin 10"
  shows "clamp_orbit c (vec3 (Fin x) (Fin y) (Fin z)) =
           (if x\<^sup>2 + y\<^sup>2 + z\<^sup>2 \<le> 100 then vec3 (Fin x) (Fin y) (Fin z)
            else vec3 (Fin (x * 10 / sqrt (x\<^sup>2 + y\<^sup>2 + z\<^sup>2))) (Fin (y * 10 / sqrt (x\<^sup>2 + y\<^sup>2 + z\<^sup>2)))
                   (Fin (z * 10 / sqrt (x\<^sup>2 + y\<^sup>2 + z\<^sup>2))))"
proof -
  define r where "r = sqrt (x\<^sup>2 + y\<^sup>2 + z\<^sup>2)"
  have r0: "0 \<le> r" by (simp add: r_def)
  have "sqrt 100 = 10" by (rule real_sqrt_unique) simp_all
  then have le: "(r \<le> 10) = (x\<^sup>2 + y\<^sup>2 + z\<^sup>2 \<le> 100)"
    unfolding r_def using real_sqrt_le_iff [of "x\<^sup>2 + y\<^sup>2 + z\<^sup>2" 100] by simp
  have zero: "r = 0 \<Longrightarrow> x = 0 \<and> y = 0 \<and> z = 0"
    unfolding r_def by (simp add: sum_power2_eq_zero_iff add_nonneg_eq_0_iff)
  have unfold: "clamp_orbit c (vec3 (Fin x) (Fin y) (Fin z)) =
      (if r = 0 then vec3 (Fin 0) (Fin (max 0 (min 10 r))) (Fin 0)
       else vec3 (Fin (x * max 0 (min 10 r) / r)) (Fin (y * max 0 (min 10 r) / r)) (Fin (z * max 0 (min 10 r) / r)))"
    by (simp add: clamp_orbit_def fin3_def vec3_def assms clampDistance_def r_def Let_def)
  show ?thesis
  proof (cases "r \<le> 10")
    case True
    with r0 have m: "max 0 (min 10 r) = r" by simp
    from True le have "x\<^sup>2 + y\<^sup>2 + z\<^sup>2 \<le> 100" by simp
    then show ?thesis
      unfolding unfold m using zero by (auto simp: vec3_def)
  next
    case False
    then have m: "max 0 (min 10 r) = 10" "r \<noteq> 0" by simp_all
    from False le have "\<not> x\<^sup>2 + y\<^sup>2 + z\<^sup>2 \<le> 100" by simp
    then show ?thesis
      unfolding unfold m by (simp add: r_def)
  qed
qed

lemma clamp_orbit_samples:
  "clamp_orbit (OrbitControls_defaults cam cv) (vec3 (Fin 0) (Fin 0) (Fin 5)) = vec3 (Fin 0) (Fin 0) (Fin 5)"
  "clamp_orbit (OrbitControls_defaults cam cv) (vec3 (Fin 0) (Fin 0) (Fin 50)) = vec3 (Fin 0) (Fin 0) (Fin 50)"
  "clamp_orbit (configured cam cv) (vec3 (Fin 0) (Fin 0) (Fin 5)) = vec3 (Fin 0) (Fin 0) (Fin 5)"
  "clamp_orbit (configured cam cv) (vec3 (Fin 0) (Fin 0) (Fin 50)) = vec3 (Fin 0) (Fin 0) (Fin 10)"
  "clamp_orbit ((configured cam cv)\<lparr>updates := n, target := vec3 (Fin 0) (Fin 0) (Fin 0)\<rparr>)
     (vec3 (Fin 0) (Fin 0) (Fin 50)) = vec3 (Fin 0) (Fin 0) (Fin 10)"
  by (simp_all add: clamp_orbit_def fin3_def vec3_def OrbitControls_defaults_def configured_def
      clampDistance_def sqrt_samples)

lemma failed_handles:
  "scene (state_of (init props0 0 ((initial law)\<lparr>webgl_available := False\<rparr>))) = Some 0"
  "camera (state_of (init props0 0 ((initial law)\<lparr>webgl_available := False\<rparr>))) = Some 1"
  "renderer (state_of (init props0 0 ((initial law)\<lparr>webgl_available := False\<rparr>))) = None"
  "controls (state_of (init props0 0 ((initial law)\<lparr>webgl_available := False\<rparr>))) = None"
  "resizeObserver (state_of (init props0 0 ((initial law)\<lparr>webgl_available := False\<rparr>))) = None"
  "\<not> returned (init props0 0 ((initial law)\<lparr>webgl_available := False\<rparr>))"
  by (simp_all add: init_raise initial_def)

lemma teardown_handles:
  "scene (teardown s) = None" "camera (teardown s) = None" "renderer (teardown s) = None"
  "controls (teardown s) = None" "model (teardown s) = None" "mixer (teardown s) = None"
  "resizeObserver (teardown s) = resizeObserver s"
  "observers (teardown s) = observers s" "frames (teardown s) = frames s" "loads (teardown s) = loads s"
  by (simp_all add: teardown_def dispose_renderer_eq dispose_controls_eq)

lemma allDestroyed_Inr:
  assumes "allDestroyed s = Inr s'"
  shows "(model s = None \<or> scene s \<noteq> None) \<and>
         s' = teardown (state_of (clearCurrentModel (disconnect_observer s)))"
proof -
  from assms have "returned (allDestroyed s)" by simp
  then have r: "model s = None \<or> scene s \<noteq> None" by (simp add: allDestroyed_returned)
  then have "returned (clearCurrentModel (disconnect_observer s))"
    by (simp add: clear_returned disconnect_observer_eq)
  with assms r show ?thesis by (simp add: allDestroyed_alt)
qed

lemma far_handles:
  "returned (init props_far 0 (initial law))"
  "camera (state_of (init props_far 0 (initial law))) = Some 1"
  "cam_position (cameras (state_of (init props_far 0 (initial law))) 1) =
     law (configured 1 2) (law (OrbitControls_defaults 1 2) (vec3 (Fin 0) (Fin 0) (Fin 50)))"
  by (simp_all add: init_eq initial_def props_far_def numeral_2_eq_2)

lemma inv_handles: "inv s \<Longrightarrow> handles_inv s" and inv_store: "inv s \<Longrightarrow> store_inv s"
  by (simp_all add: inv_def)

lemma canvas_parent:
  "store_inv s \<Longrightarrow> Canvas r \<in> set (childNodes (elements s e)) \<Longrightarrow> parentNode (renderers s r) = Some e"
  by (simp add: store_inv_def)

lemma teardown_unmounts:
  assumes "store_inv s" "renderer s = Some r"
  shows "Canvas r \<notin> set (childNodes (elements (teardown s) el))"
proof (cases "parentNode (renderers s r)")
  case None
  with assms show ?thesis
    by (auto simp: teardown_def dispose_renderer_eq dispose_controls_eq dest: canvas_parent)
next
  case (Some p)
  with assms show ?thesis
    by (auto simp: teardown_def dispose_renderer_eq dispose_controls_eq dest: canvas_parent)
qed

lemma teardown_disposes:
  "renderer s = Some r \<Longrightarrow>
     disposed (renderers (teardown s) r) \<and> contextLost (renderers (teardown s) r) \<and>
     parentNode (renderers (teardown s) r) = None"
  "controls s = Some ctl \<Longrightarrow> ctl_disposed (orbitControls (teardown s) ctl)"
  by (simp_all add: teardown_def dispose_renderer_eq dispose_controls_eq)

lemma clear_fields:
  "scene (state_of (clearCurrentModel s)) = scene s"
  "camera (state_of (clearCurrentModel s)) = camera s"
  "renderer (state_of (clearCurrentModel s)) = renderer s"
  "controls (state_of (clearCurrentModel s)) = controls s"
  "model (state_of (clearCurrentModel s)) = model s"
  "mixer (state_of (clearCurrentModel s)) = mixer s"
  "resizeObserver (state_of (clearCurrentModel s)) = resizeObserver s"
  "observers (state_of (clearCurrentModel s)) = observers s"
  "renderers (state_of (clearCurrentModel s)) = renderers s"
  "orbitControls (state_of (clearCurrentModel s)) = orbitControls s"
  "cameras (state_of (clearCurrentModel s)) = cameras s"
  "elements (state_of (clearCurrentModel s)) = elements s"
  "object3ds (state_of (clearCurrentModel s)) = object3ds s"
  "loads (state_of (clearCurrentModel s)) = loads s"
  "frames (state_of (clearCurrentModel s)) = frames s"
  "next_ref (state_of (clearCurrentModel s)) = next_ref s"
  by (simp_all add: clear_state)

lemma release_twice:
  "uncacheRoot m (stopAllAction (uncacheRoot m (stopAllAction x))) = uncacheRoot m (stopAllAction x)"
  by (simp add: uncacheRoot_def stopAllAction_def o_def)

lemma released_idem:
  "released m (s\<lparr>mixers := released m s, scenes := f\<rparr>) = released m s"
  by (cases "mixer s") (simp_all add: released_def release_twice)


lemma remove1_twice: "distinct xs \<Longrightarrow> remove1 x (remove1 x xs) = remove1 x xs"
  by (simp add: remove1_idem)

lemma clear_twice:
  assumes "inv s"
  shows "clearCurrentModel (state_of (clearCurrentModel s)) = clearCurrentModel s"
proof (cases "model s")
  case None
  then show ?thesis by (simp add: clear_none)
next
  case (Some m)
  show ?thesis
  proof (cases "scene s")
    case None
    with assms have "mixer s = None" by (auto simp: inv_def handles_inv_def)
    then have "released m s = mixers s" by (simp add: released_def)
    with Some None show ?thesis by (simp add: clear_raise)
  next
    case (Some sc)
    from assms have "distinct (children (scenes s sc))" by (simp add: inv_def store_inv_def)
    with Some \<open>model s = Some m\<close> show ?thesis
      by (simp add: clear_ok released_idem remove1_twice)
  qed
qed

lemma clear_detaches:
  assumes "inv s" "model s = Some m" "scene s = Some sc"
  shows "m \<notin> set (children (scenes (state_of (clearCurrentModel s)) sc))"
proof -
  from assms have "distinct (children (scenes s sc))" by (simp add: inv_def store_inv_def)
  with assms show ?thesis by (simp add: clear_ok)
qed


lemma loaded_scene:
  "children (scenes (state_of (load_completed 0 [10, 11] (state_of (init props0 0 (initial law))))) 0) = [4, 5, 7]"
  by (simp add: load_completed_ok [where sc = 0] active_handles) (simp add: init_eq initial_def)

lemma reset_view_fields:
  "scene (reset_view props s) = scene s" "camera (reset_view props s) = camera s"
  "renderer (reset_view props s) = renderer s" "controls (reset_view props s) = controls s"
  "model (reset_view props s) = model s" "mixer (reset_view props s) = mixer s"
  "resizeObserver (reset_view props s) = resizeObserver s"
  "scenes (reset_view props s) = scenes s" "mixers (reset_view props s) = mixers s"
  "loads (reset_view props s) = loads s" "next_ref (reset_view props s) = next_ref s"
  "object3ds (reset_view props s) = object3ds s" "frames (reset_view props s) = frames s"
  by (cases "camera s"; cases "controls s"; simp add: reset_view_eq reset_view_idle)+



lemma props_b_fields:
  "cameraPosition props_b = vec3 (Fin 0) (Fin 0) (Fin 5)" "modelPath props_b = ''b.glb''"
  by (simp_all add: props_b_def props0_def)


lemma animate_vars:
  "model (state_of (animate s)) = model s" "mixer (state_of (animate s)) = mixer s"
  by (cases "controls s"; cases "scene s"; cases "camera s"; cases "renderer s";
      simp add: animate_def Let_def mixer_tick_eq OrbitControls_update_eq WebGLRenderer_render_def)+

lemma updateRendererSize_vars:
  "model (state_of (updateRendererSize el s)) = model s" "mixer (state_of (updateRendererSize el s)) = mixer s"
  by (simp_all add: updateRendererSize_def Let_def split: option.split)

lemma modelPathstate_vars:
  "model (state_of (modelPathstate newPath oldPath props s)) = model s"
  "mixer (state_of (modelPathstate newPath oldPath props s)) = mixer s"
  by (cases "newPath \<noteq> [] \<and> newPath \<noteq> oldPath \<and> scene s \<noteq> None";
      simp add: modelPathstate_eq modelPathstate_idle reset_view_fields clear_fields)+

lemma load_completed_vars:
  "model s \<noteq> None \<Longrightarrow> model (state_of (load_completed i clips s)) \<noteq> None"
  "mixer s \<noteq> None \<Longrightarrow> mixer (state_of (load_completed i clips s)) \<noteq> None"
  by (cases "i < length (loads s)"; cases "scene s";
      simp add: load_completed_idle load_completed_ok load_completed_raise)+

lemma step_keeps_vars:
  assumes "ev \<noteq> AllDestroyed"
  shows "model s \<noteq> None \<Longrightarrow> model (state_of (step ev s)) \<noteq> None"
    and "mixer s \<noteq> None \<Longrightarrow> mixer (state_of (step ev s)) \<noteq> None"
  using assms
  by (cases ev; cases "webgl_available s";
      simp add: init_eq init_raise modelPathstate_vars clear_fields load_completed_vars load_failed_def
      frame_tick_def animate_vars resize_observed_def updateRendererSize_vars layout_def)+

lemma frame_tick_idle:
  "controls s = None \<or> scene s = None \<or> camera s = None \<Longrightarrow>
   frame_tick s = Inr (s\<lparr>frames := frames s - 1\<rparr>)"
  by (cases "frames s = 0") (auto simp: frame_tick_def animate_idle)

lemma frames_drain:
  "controls s = None \<or> scene s = None \<or> camera s = None \<Longrightarrow>
   run (replicate n FrameTick) s = s\<lparr>frames := frames s - n\<rparr>"
proof (induction n arbitrary: s)
  case 0
  then show ?case by simp
next
  case (Suc n)
  have "run (replicate (Suc n) FrameTick) s = run (replicate n FrameTick) (s\<lparr>frames := frames s - 1\<rparr>)"
    using Suc.prems by (simp add: frame_tick_idle)
  also have "\<dots> = s\<lparr>frames := frames s - 1 - n\<rparr>"
    using Suc.prems by (subst Suc.IH) auto
  finally show ?case by simp
qed

lemma loaded_counts:
  "frames (state_of (load_completed 0 [10, 11] (state_of (init props0 0 (initial law))))) = 1"
  "steps (mixers (state_of (load_completed 0 [10, 11] (state_of (init props0 0 (initial law))))) 8) = []"
  by (simp_all add: load_completed_ok [where sc = 0] active_handles) (simp add: init_eq initial_def)

lemma js_div_ints:
  "js_div (num_of_int w) (num_of_int h) =
     (if h = 0 then (if w = 0 then NaN else if 0 < w then PosInf else NegInf)
      else to_double (of_int w / of_int h))"
  by (simp add: num_of_int_def)

lemma resized_fields:
  assumes "renderer s = Some r" and "camera s = Some cam"
  shows "returned (updateRendererSize el s)"
    and "width (renderers (state_of (updateRendererSize el s)) r) = num_of_int (clientWidth (elements s el))"
    and "height (renderers (state_of (updateRendererSize el s)) r) = num_of_int (clientHeight (elements s el))"
    and "aspect (cameras (state_of (updateRendererSize el s)) cam) =
           js_div (num_of_int (clientWidth (elements s el))) (num_of_int (clientHeight (elements s el)))"
    and "projectionMatrix (cameras (state_of (updateRendererSize el s)) cam) =
           (fov (cameras s cam), aspect (cameras (state_of (updateRendererSize el s)) cam),
            near (cameras s cam), far (cameras s cam))"
    and "elements (state_of (updateRendererSize el s)) = elements s"
  by (simp_all add: updateRendererSize_eq [OF assms])

lemma active_observer:
  "observed (observers (state_of (init props0 0 (initial law))) 6) = [0]"
  "callback_element (observers (state_of (init props0 0 (initial law))) 6) = 0"
  by (simp_all add: init_eq initial_def)

lemma padded_fields:
  "observed (observers (layout 0 (380, 280) 400 300 (run [Init props0 0] (initial law))) 6) = [0]"
  "callback_element (observers (layout 0 (380, 280) 400 300 (run [Init props0 0] (initial law))) 6) = 0"
  "renderer (layout 0 (380, 280) 400 300 (run [Init props0 0] (initial law))) = Some 2"
  "camera (layout 0 (380, 280) 400 300 (run [Init props0 0] (initial law))) = Some 1"
  "clientWidth (elements (layout 0 (380, 280) 400 300 (run [Init props0 0] (initial law))) 0) = 400"
  "clientHeight (elements (layout 0 (380, 280) 400 300 (run [Init props0 0] (initial law))) 0) = 300"
  "contentWidth (elements (layout 0 (380, 280) 400 300 (run [Init props0 0] (initial law))) 0) = 380"
  "contentHeight (elements (layout 0 (380, 280) 400 300 (run [Init props0 0] (initial law))) 0) = 280"
  by (simp_all add: layout_def active_handles active_observer)

lemma clipAction_play_running:
  "\<forall>a\<in>set acts. running a \<and> loop a = LoopRepeat \<Longrightarrow>
   \<forall>a\<in>set (clipAction_play c acts). running a \<and> loop a = LoopRepeat"
  by (auto simp: clipAction_play_def)

lemma clip_of_started: "clip (if clip a = c then a\<lparr>running := True\<rparr> else a) = clip a"
  by simp

lemma clipAction_play_clips:
  "clip ` set (clipAction_play c acts) = insert c (clip ` set acts)"
proof -
  have "map clip (clipAction_play c acts) =
          (if c \<in> clip ` set acts then map clip acts else map clip acts @ [c])"
    by (simp add: clipAction_play_def o_def clip_of_started)
  then have "set (map clip (clipAction_play c acts)) = insert c (clip ` set acts)"
    by auto
  then show ?thesis by simp
qed

lemma play_all:
  "\<forall>a\<in>set acts. running a \<and> loop a = LoopRepeat \<Longrightarrow>
   (\<forall>a\<in>set (foldl (\<lambda>acts c. clipAction_play c acts) acts cs). running a \<and> loop a = LoopRepeat) \<and>
   clip ` set (foldl (\<lambda>acts c. clipAction_play c acts) acts cs) = clip ` set acts \<union> set cs"
proof (induction cs arbitrary: acts)
  case Nil
  then show ?case by simp
next
  case (Cons c cs)
  from Cons.prems have "\<forall>a\<in>set (clipAction_play c acts). running a \<and> loop a = LoopRepeat"
    by (rule clipAction_play_running)
  from Cons.IH [OF this] show ?case
    by (auto simp: clipAction_play_clips)
qed

lemma clips_played_all:
  "(\<forall>a\<in>set (clips_played cs). running a \<and> loop a = LoopRepeat) \<and>
   clip ` set (clips_played cs) = set cs"
  using play_all [of "[]" cs] by (simp add: clips_played_def)

lemma clips_played_each:
  "c \<in> set cs \<Longrightarrow> \<exists>a\<in>set (clips_played cs). clip a = c \<and> running a \<and> loop a = LoopRepeat"
proof -
  assume "c \<in> set cs"
  then have "c \<in> clip ` set (clips_played cs)" by (simp add: clips_played_all)
  then obtain a where "a \<in> set (clips_played cs)" "clip a = c" by auto
  with clips_played_all [of cs] show ?thesis by auto
qed

lemma active_scene: "children (scenes (state_of (init props0 0 (initial law))) 0) = [4, 5]"
  by (simp add: init_eq initial_def)

lemma overtaken_b:
  "modelPathstate ''b.glb'' ''m.glb'' props_b (state_of (init props0 0 (initial law))) =
     Inr (reset_view props_b ((state_of (init props0 0 (initial law)))
            \<lparr>loads := [(''m.glb'', props0), (''b.glb'', props_b)]\<rparr>))"
  by (simp add: modelPathstate_eq active_handles clear_none props_b_fields)

lemma overtaken_b_fields:
  "scene (state_of (modelPathstate ''b.glb'' ''m.glb'' props_b (state_of (init props0 0 (initial law))))) = Some 0"
  "loads (state_of (modelPathstate ''b.glb'' ''m.glb'' props_b (state_of (init props0 0 (initial law)))))
     = [(''m.glb'', props0), (''b.glb'', props_b)]"
  "next_ref (state_of (modelPathstate ''b.glb'' ''m.glb'' props_b (state_of (init props0 0 (initial law))))) = 7"
  "children (scenes (state_of (modelPathstate ''b.glb'' ''m.glb'' props_b (state_of (init props0 0 (initial law))))) 0)
     = [4, 5]"
  by (simp_all add: overtaken_b reset_view_fields active_handles active_scene)

lemma overtaken_first:
  "scene (state_of (load_completed 0 []
      (state_of (modelPathstate ''b.glb'' ''m.glb'' props_b (state_of (init props0 0 (initial law))))))) = Some 0"
  "loads (state_of (load_completed 0 []
      (state_of (modelPathstate ''b.glb'' ''m.glb'' props_b (state_of (init props0 0 (initial law)))))))
     = [(''b.glb'', props_b)]"
  "next_ref (state_of (load_completed 0 []
      (state_of (modelPathstate ''b.glb'' ''m.glb'' props_b (state_of (init props0 0 (initial law))))))) = 9"
  "children (scenes (state_of (load_completed 0 []
      (state_of (modelPathstate ''b.glb'' ''m.glb'' props_b (state_of (init props0 0 (initial law))))))) 0)
     = [4, 5, 7]"
  "kind (object3ds (state_of (load_completed 0 []
      (state_of (modelPathstate ''b.glb'' ''m.glb'' props_b (state_of (init props0 0 (initial law))))))) 7) = Group"
  by (simp_all add: load_completed_ok [where sc = 0] overtaken_b_fields drop_nth_def)

lemma overtaken_second:
  "scene (state_of (load_completed 0 [] (state_of (load_completed 0 []
      (state_of (modelPathstate ''b.glb'' ''m.glb'' props_b (state_of (init props0 0 (initial law))))))))) = Some 0"
  "model (state_of (load_completed 0 [] (state_of (load_completed 0 []
      (state_of (modelPathstate ''b.glb'' ''m.glb'' props_b (state_of (init props0 0 (initial law))))))))) = Some 9"
  "children (scenes (state_of (load_completed 0 [] (state_of (load_completed 0 []
      (state_of (modelPathstate ''b.glb'' ''m.glb'' props_b (state_of (init props0 0 (initial law))))))))) 0)
     = [4, 5, 7, 9]"
  "kind (object3ds (state_of (load_completed 0 [] (state_of (load_completed 0 []
      (state_of (modelPathstate ''b.glb'' ''m.glb'' props_b (state_of (init props0 0 (initial law))))))))) 7) = Group"
  by (simp_all add: load_completed_ok [where sc = 0] overtaken_first)

lemma destroyed_handles:
  "returned (allDestroyed (state_of (init props0 0 (initial law))))"
  "scene (state_of (allDestroyed (state_of (init props0 0 (initial law))))) = None"
  "resizeObserver (state_of (allDestroyed (state_of (init props0 0 (initial law))))) = Some 6"
  by (simp_all add: allDestroyed_alt clear_returned clear_fields disconnect_observer_eq teardown_handles
      active_handles)

section \<open>The claims\<close>

text \<open>
  A state the module can reach is \<open>run evs (initial law)\<close> for a list of events \<open>evs\<close> and
  an update law \<open>law\<close> of the controls. The sample runs take the law \<open>clamp_orbit\<close> and
  start \<open>init\<close> with the configuration \<open>props0\<close> on element 0; the objects \<open>init\<close> makes
  are then 0 (scene), 1 (camera), 2 (renderer), 3 (controls), 4 and 5 (lights) and 6
  (observer), and the first loaded subtree and its mixer are 7 and 8.
\<close>

text \<open>
  Claim C1, as stated, is false in one respect: the camera need not stand at
  \<open>props.cameraPosition\<close>. \<open>init\<close> limits the distance of the controls to 10 (line 70) and
  ends with a tick (line 84), whose \<open>controls.update()\<close> (line 130) moves the camera. With
  \<open>props.cameraPosition\<close> at (0, 0, 50) and the law \<open>clamp_orbit\<close>, the camera is not at
  (0, 0, 50) when \<open>init\<close> has returned (it is at distance 10).
\<close>

theorem init_moves_camera:
  "returned (init props_far 0 (initial clamp_orbit)) \<and>
   camera (state_of (init props_far 0 (initial clamp_orbit))) = Some 1 \<and>
   cameraPosition props_far = vec3 (Fin 0) (Fin 0) (Fin 50) \<and>
   cam_position (cameras (state_of (init props_far 0 (initial clamp_orbit))) 1) \<noteq> cameraPosition props_far"
  using far_handles [of clamp_orbit]
  by (simp add: clamp_orbit_samples) (simp add: props_far_def vec3_def)

text \<open>
  Claim C1, amended. For every configuration, element and state, \<open>init\<close> returns exactly
  when the page gives a WebGL context (otherwise the constructor of the renderer throws).
  In the state it returns, with the model load still in flight: the camera has field of
  view 75 and aspect 5/6 (the value of the expression \<open>5/6\<close> of line 53); the controls
  steer that camera, with target the origin and distances limited to 0 and 10, and have
  been updated twice; the position of the camera is \<open>props.cameraPosition\<close> as these two
  updates rewrite it, the first by the constructor of the controls with its defaults, the
  second by the tick with the settings of \<open>init\<close>; the new scene has exactly two children,
  an ambient light of intensity 1/2 and a directional light of intensity 1 placed at
  (5, 5, 5); and the drawable surface of the new renderer has been appended to the children
  of the element, which are one more than before. The model and mixer variables are as they
  were.
\<close>

theorem init_builds_scene:
  "returned (init props container s) = webgl_available s \<and>
   (webgl_available s \<longrightarrow>
     (let s' = state_of (init props container s); n = next_ref s in
        camera s' = Some (n + 1) \<and>
        fov (cameras s' (n + 1)) = Fin 75 \<and>
        aspect (cameras s' (n + 1)) = js_div (Fin 5) (Fin 6) \<and>
        controls s' = Some (n + 3) \<and>
        ctl_object (orbitControls s' (n + 3)) = n + 1 \<and>
        minDistance (orbitControls s' (n + 3)) = Fin 0 \<and>
        maxDistance (orbitControls s' (n + 3)) = Fin 10 \<and>
        target (orbitControls s' (n + 3)) = vec3 (Fin 0) (Fin 0) (Fin 0) \<and>
        updates (orbitControls s' (n + 3)) = 2 \<and>
        cam_position (cameras s' (n + 1)) =
          orbit_update s
            ((OrbitControls_defaults (n + 1) (n + 2))
               \<lparr>enableDamping := True, dampingFactor := Fin (1 / 10), screenSpacePanning := False,
                minDistance := Fin 0, maxDistance := Fin 10, updates := 1\<rparr>)
            (orbit_update s (OrbitControls_defaults (n + 1) (n + 2)) (cameraPosition props)) \<and>
        scene s' = Some n \<and>
        children (scenes s' n) = [n + 4, n + 5] \<and>
        is_light (object3ds s' (n + 4)) \<and> is_light (object3ds s' (n + 5)) \<and>
        kind (object3ds s' (n + 4)) = AmbientLight 16777215 (Fin (1 / 2)) \<and>
        kind (object3ds s' (n + 5)) = DirectionalLight 16777215 (Fin 1) \<and>
        obj_position (object3ds s' (n + 5)) = vec3 (Fin 5) (Fin 5) (Fin 5) \<and>
        renderer s' = Some (n + 2) \<and>
        parentNode (renderers s' (n + 2)) = Some container \<and>
        childNodes (elements s' container) = childNodes (elements s container) @ [Canvas (n + 2)] \<and>
        length (childNodes (elements s' container)) = length (childNodes (elements s container)) + 1 \<and>
        model s' = model s \<and> mixer s' = mixer s \<and>
        loads s' = loads s @ [(modelPath props, props)]))"
proof (cases "webgl_available s")
  case True
  then show ?thesis
    by (simp add: init_eq Let_def is_light_def configured_def OrbitControls_defaults_def)
next
  case False
  then show ?thesis by (simp add: init_raise)
qed

text \<open>
  Claim C1, amended, on the sample run: the page gives a context, the element had no
  child and has one, and the aspect is the double nearest to 5/6; without a context
  \<open>init\<close> does not return.
\<close>

theorem init_builds_scene_witness:
  "webgl_available (initial clamp_orbit) \<and>
   returned (init props0 0 (initial clamp_orbit)) \<and>
   childNodes (elements (initial clamp_orbit) 0) = [] \<and>
   length (childNodes (elements (state_of (init props0 0 (initial clamp_orbit))) 0)) = 1 \<and>
   aspect (cameras (state_of (init props0 0 (initial clamp_orbit))) 1) = js_div (Fin 5) (Fin 6) \<and>
   aspect (cameras (state_of (init props0 0 (initial clamp_orbit))) 1) =
     Fin (7505999378950827 / 9007199254740992) \<and>
   children (scenes (state_of (init props0 0 (initial clamp_orbit))) 0) = [4, 5] \<and>
   maxDistance (orbitControls (state_of (init props0 0 (initial clamp_orbit))) 3) = Fin 10 \<and>
   model (state_of (init props0 0 (initial clamp_orbit))) = None \<and>
   loads (state_of (init props0 0 (initial clamp_orbit))) = [(''m.glb'', props0)] \<and>
   \<not> returned (init props0 0 ((initial clamp_orbit)\<lparr>webgl_available := False\<rparr>))"
  using init_builds_scene [of props0 0 "initial clamp_orbit"]
    init_builds_scene [of props0 0 "(initial clamp_orbit)\<lparr>webgl_available := False\<rparr>"]
  by (simp add: Let_def initial_def props0_def to_double_samples)

text \<open>
  Claim C2, as stated, is false: \<open>allDestroyed\<close> does not assign the resize observer
  variable. After \<open>init\<close> and \<open>allDestroyed\<close> it is still defined.
\<close>

theorem allDestroyed_keeps_observer:
  "returned (allDestroyed (run [Init props0 0] (initial clamp_orbit))) \<and>
   resizeObserver (state_of (allDestroyed (run [Init props0 0] (initial clamp_orbit)))) \<noteq> None"
  by (simp add: allDestroyed_alt clear_returned clear_fields disconnect_observer_eq teardown_handles
      active_handles)

text \<open>
  Claim C2, amended. In every state the module can reach, when \<open>allDestroyed\<close> returns, the
  variables scene, camera, renderer, controls, model and mixer are undefined; the resize
  observer variable keeps its value, and the observer it refers to watches nothing; the
  controls and the renderer the variables referred to are disposed, the renderer's context
  is lost, and its drawable surface is a child of no element.
\<close>

theorem allDestroyed_clears:
  assumes "s = run evs (initial law)" and "allDestroyed s = Inr s'"
  shows "scene s' = None \<and> camera s' = None \<and> renderer s' = None \<and> controls s' = None \<and>
         model s' = None \<and> mixer s' = None \<and>
         resizeObserver s' = resizeObserver s \<and>
         (\<forall>ro. resizeObserver s = Some ro \<longrightarrow> observed (observers s' ro) = []) \<and>
         (\<forall>ctl. controls s = Some ctl \<longrightarrow> ctl_disposed (orbitControls s' ctl)) \<and>
         (\<forall>r. renderer s = Some r \<longrightarrow>
              disposed (renderers s' r) \<and> contextLost (renderers s' r) \<and>
              parentNode (renderers s' r) = None \<and>
              (\<forall>el. Canvas r \<notin> set (childNodes (elements s' el))))"
proof -
  let ?t = "state_of (clearCurrentModel (disconnect_observer s))"
  from assms(2) have s': "s' = teardown ?t" by (simp add: allDestroyed_Inr)
  have "inv s" by (simp add: assms(1) inv_run)
  then have "store_inv ?t"
    by (simp add: inv_def store_clear)
  then have unmount: "\<And>r el. renderer s = Some r \<Longrightarrow> Canvas r \<notin> set (childNodes (elements s' el))"
    unfolding s' by (rule teardown_unmounts) (simp add: clear_fields disconnect_observer_eq)
  have obs: "\<And>ro. resizeObserver s = Some ro \<Longrightarrow> observed (observers s' ro) = []"
    by (simp add: s' teardown_handles clear_fields disconnect_observer_eq)
  have disp: "\<And>r. renderer s = Some r \<Longrightarrow> disposed (renderers s' r) \<and> contextLost (renderers s' r) \<and>
              parentNode (renderers s' r) = None"
    unfolding s' by (rule teardown_disposes) (simp add: clear_fields disconnect_observer_eq)
  have cdisp: "\<And>ctl. controls s = Some ctl \<Longrightarrow> ctl_disposed (orbitControls s' ctl)"
    unfolding s' by (rule teardown_disposes) (simp add: clear_fields disconnect_observer_eq)
  have "resizeObserver s' = resizeObserver s"
    by (simp add: s' teardown_handles clear_fields disconnect_observer_eq)
  with unmount obs disp cdisp show ?thesis
    by (simp add: s' teardown_handles)
qed

text \<open>
  Claim C2, amended, on the sample run with a loaded model.
\<close>

theorem allDestroyed_clears_witness:
  "returned (allDestroyed (run [Init props0 0, LoadCompleted 0 [10, 11]] (initial clamp_orbit))) \<and>
   scene (state_of (allDestroyed (run [Init props0 0, LoadCompleted 0 [10, 11]] (initial clamp_orbit)))) = None \<and>
   mixer (state_of (allDestroyed (run [Init props0 0, LoadCompleted 0 [10, 11]] (initial clamp_orbit)))) = None \<and>
   resizeObserver (state_of (allDestroyed (run [Init props0 0, LoadCompleted 0 [10, 11]] (initial clamp_orbit)))) = Some 6 \<and>
   observed (observers (state_of (allDestroyed (run [Init props0 0, LoadCompleted 0 [10, 11]] (initial clamp_orbit)))) 6) = [] \<and>
   ctl_disposed (orbitControls (state_of (allDestroyed (run [Init props0 0, LoadCompleted 0 [10, 11]] (initial clamp_orbit)))) 3) \<and>
   disposed (renderers (state_of (allDestroyed (run [Init props0 0, LoadCompleted 0 [10, 11]] (initial clamp_orbit)))) 2) \<and>
   Canvas 2 \<notin> set (childNodes (elements (state_of (allDestroyed (run [Init props0 0, LoadCompleted 0 [10, 11]] (initial clamp_orbit)))) 0))"
proof -
  let ?s = "run [Init props0 0, LoadCompleted 0 [10, 11]] (initial clamp_orbit)"
  have h: "scene ?s = Some 0" "controls ?s = Some 3" "renderer ?s = Some 2" "resizeObserver ?s = Some 6"
    by (simp_all add: loaded_handles loaded_more)
  have ret: "returned (allDestroyed ?s)"
    by (simp add: allDestroyed_returned loaded_handles)
  then have r: "allDestroyed ?s = Inr (state_of (allDestroyed ?s))"
    by (simp only: result_eq_Inr simp_thms)
  from allDestroyed_clears [OF refl r] h ret show ?thesis
    by simp
qed




text \<open>
  Claim C4, as stated, is false in one respect: when a second load was asked for before
  the first one completed, both subtrees get attached, and \<open>clearCurrentModel\<close> detaches
  only the one the model variable refers to. After the call, and after a second call, the
  scene still has the first subtree (object 7) among its children.
\<close>

theorem clearCurrentModel_leaves_overtaken_model:
  "returned (clearCurrentModel (run [Init props0 0, ModelPathstate ''b.glb'' ''m.glb'' props_b,
       LoadCompleted 0 [], LoadCompleted 0 []] (initial clamp_orbit))) \<and>
   children (scenes (state_of (clearCurrentModel (run [Init props0 0, ModelPathstate ''b.glb'' ''m.glb'' props_b,
       LoadCompleted 0 [], LoadCompleted 0 []] (initial clamp_orbit)))) 0) = [4, 5, 7] \<and>
   kind (object3ds (state_of (clearCurrentModel (run [Init props0 0, ModelPathstate ''b.glb'' ''m.glb'' props_b,
       LoadCompleted 0 [], LoadCompleted 0 []] (initial clamp_orbit)))) 7) = Group \<and>
   children (scenes (state_of (clearCurrentModel (state_of (clearCurrentModel
       (run [Init props0 0, ModelPathstate ''b.glb'' ''m.glb'' props_b,
          LoadCompleted 0 [], LoadCompleted 0 []] (initial clamp_orbit)))))) 0) = [4, 5, 7]"
proof -
  let ?d = "state_of (load_completed 0 [] (state_of (load_completed 0 []
      (state_of (modelPathstate ''b.glb'' ''m.glb'' props_b (state_of (init props0 0 (initial clamp_orbit))))))))"
  have r: "run [Init props0 0, ModelPathstate ''b.glb'' ''m.glb'' props_b,
       LoadCompleted 0 [], LoadCompleted 0 []] (initial clamp_orbit) = ?d"
    by simp
  have c: "returned (clearCurrentModel ?d)" by (simp add: clear_returned overtaken_second)
  have once: "children (scenes (state_of (clearCurrentModel ?d)) 0) = [4, 5, 7]"
    "kind (object3ds (state_of (clearCurrentModel ?d)) 7) = Group"
    by (simp_all add: clear_ok [where m = 9 and sc = 0] overtaken_second clear_fields)
  have "inv ?d" using inv_run [of "[Init props0 0, ModelPathstate ''b.glb'' ''m.glb'' props_b,
       LoadCompleted 0 [], LoadCompleted 0 []]" clamp_orbit] by (simp only: r)
  then have "clearCurrentModel (state_of (clearCurrentModel ?d)) = clearCurrentModel ?d"
    by (rule clear_twice)
  with c once show ?thesis
    by (simp only: r simp_thms)
qed

text \<open>
  Claim C4, amended. In every state the module can reach, a second call of
  \<open>clearCurrentModel\<close> gives exactly the result of the first: it returns the state the first
  call returned (or raises as the first did, from the same state). With no model loaded the
  call returns the state unchanged; with a model and a scene it returns, and the model the
  variable refers to is no longer among the children of the scene.
\<close>

theorem clearCurrentModel_idempotent:
  assumes "s = run evs (initial law)"
  shows "clearCurrentModel (state_of (clearCurrentModel s)) = clearCurrentModel s \<and>
         (model s = None \<longrightarrow> clearCurrentModel s = Inr s) \<and>
         (\<forall>m sc. model s = Some m \<longrightarrow> scene s = Some sc \<longrightarrow>
            returned (clearCurrentModel s) \<and>
            m \<notin> set (children (scenes (state_of (clearCurrentModel s)) sc)))"
proof -
  have "inv s" by (simp add: assms inv_run)
  then show ?thesis
    by (simp add: clear_twice clear_none clear_detaches clear_returned)
qed

text \<open>
  Claim C4, amended, on the sample run with a loaded model, and on the initial state.
\<close>

theorem clearCurrentModel_idempotent_witness:
  "children (scenes (run [Init props0 0, LoadCompleted 0 [10, 11]] (initial clamp_orbit)) 0) = [4, 5, 7] \<and>
   model (run [Init props0 0, LoadCompleted 0 [10, 11]] (initial clamp_orbit)) = Some 7 \<and>
   returned (clearCurrentModel (run [Init props0 0, LoadCompleted 0 [10, 11]] (initial clamp_orbit))) \<and>
   7 \<notin> set (children (scenes (state_of (clearCurrentModel (run [Init props0 0, LoadCompleted 0 [10, 11]] (initial clamp_orbit)))) 0)) \<and>
   clearCurrentModel (state_of (clearCurrentModel (run [Init props0 0, LoadCompleted 0 [10, 11]] (initial clamp_orbit)))) =
     clearCurrentModel (run [Init props0 0, LoadCompleted 0 [10, 11]] (initial clamp_orbit)) \<and>
   model (initial clamp_orbit) = None \<and> clearCurrentModel (initial clamp_orbit) = Inr (initial clamp_orbit)"
  using clearCurrentModel_idempotent [OF refl, of "[Init props0 0, LoadCompleted 0 [10, 11]]"]
    clearCurrentModel_idempotent [OF refl, of "[]"]
  by (simp add: loaded_handles loaded_scene) (simp add: initial_def)

text \<open>
  Claim C5. A run of \<open>animate\<close> with the controls, scene or camera variable undefined
  returns the state unchanged, so it requests no frame, and a frame that runs then only
  lowers the number of requested frames. After \<open>allDestroyed\<close> has returned, the frames
  still requested run without requesting another, until none is left. In a state the module
  can reach with the three variables defined, the renderer is defined too, and \<open>animate\<close>
  requests one frame, updates the controls once, advances the mixer (when there is one) by
  the step 0.016, and renders the scene with the camera.
\<close>

theorem animate_tick:
  assumes "s = run evs (initial law)"
  shows "(controls s = None \<or> scene s = None \<or> camera s = None \<longrightarrow>
            animate s = Inr s \<and> frame_tick s = Inr (s\<lparr>frames := frames s - 1\<rparr>)) \<and>
         (\<forall>t n. allDestroyed s = Inr t \<longrightarrow>
            run (replicate n FrameTick) t = t\<lparr>frames := frames t - n\<rparr> \<and>
            frames (run (replicate (frames t) FrameTick) t) = 0) \<and>
         (\<forall>ctl sc cam. controls s = Some ctl \<longrightarrow> scene s = Some sc \<longrightarrow> camera s = Some cam \<longrightarrow>
            returned (animate s) \<and> renderer s \<noteq> None \<and>
            (let s' = state_of (animate s) in
               frames s' = frames s + 1 \<and>
               updates (orbitControls s' ctl) = updates (orbitControls s ctl) + 1 \<and>
               (\<forall>mx. mixer s = Some mx \<longrightarrow>
                  steps (mixers s' mx) = steps (mixers s mx) @ [Fin (16 / 1000)]) \<and>
               (\<forall>r. renderer s = Some r \<longrightarrow>
                  rendered (renderers s' r) = rendered (renderers s r) @ [(sc, cam)])))"
proof -
  have i: "inv s" by (simp add: assms inv_run)
  have idle: "controls s = None \<or> scene s = None \<or> camera s = None \<longrightarrow>
      animate s = Inr s \<and> frame_tick s = Inr (s\<lparr>frames := frames s - 1\<rparr>)"
    by (simp add: animate_idle frame_tick_idle)
  have drain: "\<And>t n. allDestroyed s = Inr t \<Longrightarrow>
      run (replicate n FrameTick) t = t\<lparr>frames := frames t - n\<rparr> \<and>
      frames (run (replicate (frames t) FrameTick) t) = 0"
  proof -
    fix t n assume "allDestroyed s = Inr t"
    then have "controls t = None" by (auto dest!: allDestroyed_Inr simp: teardown_handles)
    then show "run (replicate n FrameTick) t = t\<lparr>frames := frames t - n\<rparr> \<and>
      frames (run (replicate (frames t) FrameTick) t) = 0"
      by (simp add: frames_drain)
  qed
  have active: "\<And>ctl sc cam. controls s = Some ctl \<Longrightarrow> scene s = Some sc \<Longrightarrow> camera s = Some cam \<Longrightarrow>
      returned (animate s) \<and> renderer s \<noteq> None \<and>
      (let s' = state_of (animate s) in
         frames s' = frames s + 1 \<and>
         updates (orbitControls s' ctl) = updates (orbitControls s ctl) + 1 \<and>
         (\<forall>mx. mixer s = Some mx \<longrightarrow>
            steps (mixers s' mx) = steps (mixers s mx) @ [Fin (16 / 1000)]) \<and>
         (\<forall>r. renderer s = Some r \<longrightarrow>
            rendered (renderers s' r) = rendered (renderers s r) @ [(sc, cam)]))"
  proof -
    fix ctl sc cam assume h: "controls s = Some ctl" "scene s = Some sc" "camera s = Some cam"
    with i obtain r where r: "renderer s = Some r" by (auto simp: inv_def handles_inv_def)
    show "returned (animate s) \<and> renderer s \<noteq> None \<and>
      (let s' = state_of (animate s) in
         frames s' = frames s + 1 \<and>
         updates (orbitControls s' ctl) = updates (orbitControls s ctl) + 1 \<and>
         (\<forall>mx. mixer s = Some mx \<longrightarrow>
            steps (mixers s' mx) = steps (mixers s mx) @ [Fin (16 / 1000)]) \<and>
         (\<forall>r. renderer s = Some r \<longrightarrow>
            rendered (renderers s' r) = rendered (renderers s r) @ [(sc, cam)]))"
      using r by (simp add: animate_eq [OF h r] Let_def)
  qed
  from idle drain active show ?thesis by blast
qed

text \<open>
  Claim C5 on the initial state and on the sample run with a loaded model: the one frame
  requested before \<open>allDestroyed\<close> runs and leaves none.
\<close>

theorem animate_tick_witness:
  "controls (initial clamp_orbit) = None \<and> animate (initial clamp_orbit) = Inr (initial clamp_orbit) \<and>
   returned (allDestroyed (run [Init props0 0, LoadCompleted 0 [10, 11]] (initial clamp_orbit))) \<and>
   frames (state_of (allDestroyed (run [Init props0 0, LoadCompleted 0 [10, 11]] (initial clamp_orbit)))) = 1 \<and>
   frames (run (replicate 1 FrameTick)
     (state_of (allDestroyed (run [Init props0 0, LoadCompleted 0 [10, 11]] (initial clamp_orbit))))) = 0 \<and>
   controls (run [Init props0 0, LoadCompleted 0 [10, 11]] (initial clamp_orbit)) = Some 3 \<and>
   scene (run [Init props0 0, LoadCompleted 0 [10, 11]] (initial clamp_orbit)) = Some 0 \<and>
   camera (run [Init props0 0, LoadCompleted 0 [10, 11]] (initial clamp_orbit)) = Some 1 \<and>
   mixer (run [Init props0 0, LoadCompleted 0 [10, 11]] (initial clamp_orbit)) = Some 8 \<and>
   returned (animate (run [Init props0 0, LoadCompleted 0 [10, 11]] (initial clamp_orbit))) \<and>
   frames (state_of (animate (run [Init props0 0, LoadCompleted 0 [10, 11]] (initial clamp_orbit)))) = 2 \<and>
   steps (mixers (state_of (animate (run [Init props0 0, LoadCompleted 0 [10, 11]] (initial clamp_orbit)))) 8) = [Fin (16 / 1000)]"
proof -
  let ?s = "run [Init props0 0, LoadCompleted 0 [10, 11]] (initial clamp_orbit)"
  have h: "controls ?s = Some 3" "scene ?s = Some 0" "camera ?s = Some 1" "mixer ?s = Some 8"
    "model ?s = Some 7" "frames ?s = 1" "steps (mixers ?s 8) = []"
    by (simp_all add: loaded_handles loaded_more loaded_counts)
  have i: "controls (initial clamp_orbit) = None" by (simp add: initial_def)
  then have a: "animate (initial clamp_orbit) = Inr (initial clamp_orbit)"
    using animate_tick [OF refl, of "[]"] by simp
  from h have ret: "returned (allDestroyed ?s)"
    by (simp only: allDestroyed_returned) simp
  then have r: "allDestroyed ?s = Inr (state_of (allDestroyed ?s))"
    by (simp only: result_eq_Inr simp_thms)
  have f: "frames (state_of (allDestroyed ?s)) = 1"
    using r h(6) by (auto dest!: allDestroyed_Inr simp: teardown_handles clear_fields disconnect_observer_eq)
  note t = animate_tick [OF refl, of "[Init props0 0, LoadCompleted 0 [10, 11]]"]
  from t r have "frames (run (replicate (frames (state_of (allDestroyed ?s))) FrameTick) (state_of (allDestroyed ?s))) = 0"
    by blast
  then have d: "frames (run (replicate 1 FrameTick) (state_of (allDestroyed ?s))) = 0"
    by (simp only: f)
  from t h(1-3) have act: "returned (animate ?s) \<and>
      (let s' = state_of (animate ?s) in
         frames s' = frames ?s + 1 \<and>
         updates (orbitControls s' 3) = updates (orbitControls ?s 3) + 1 \<and>
         (\<forall>mx. mixer ?s = Some mx \<longrightarrow>
            steps (mixers s' mx) = steps (mixers ?s mx) @ [Fin (16 / 1000)]) \<and>
         (\<forall>r. renderer ?s = Some r \<longrightarrow>
            rendered (renderers s' r) = rendered (renderers ?s r) @ [(0, 1)]))"
    by blast
  then have e: "returned (animate ?s)" "frames (state_of (animate ?s)) = 2"
    "steps (mixers (state_of (animate ?s)) 8) = [Fin (16 / 1000)]"
    using h(4,6,7) by (simp_all only: Let_def) simp_all
  from i a ret f d h(1-4) e show ?thesis
    by (simp only: simp_thms)
qed

text \<open>
  Claim C6, as stated, is false in two respects. The sizes the renderer gets are
  \<open>clientWidth\<close> and \<open>clientHeight\<close> of the element (lines 94 and 95), which measure its
  padding box: an element with a content box of 380 by 280 and a padding of 10 has the
  client size 400 by 300, and the renderer gets the width 400. And the aspect is the
  quotient in doubles: for 400 by 300 it is 6004799503160661 / 4503599627370496, not 4/3.
\<close>

theorem updateRendererSize_not_exact:
  "observed (observers (layout 0 (380, 280) 400 300 (run [Init props0 0] (initial clamp_orbit))) 6) \<noteq> [] \<and>
   renderer (layout 0 (380, 280) 400 300 (run [Init props0 0] (initial clamp_orbit))) = Some 2 \<and>
   camera (layout 0 (380, 280) 400 300 (run [Init props0 0] (initial clamp_orbit))) = Some 1 \<and>
   returned (resize_observed 6 (layout 0 (380, 280) 400 300 (run [Init props0 0] (initial clamp_orbit)))) \<and>
   contentWidth (elements (layout 0 (380, 280) 400 300 (run [Init props0 0] (initial clamp_orbit))) 0) = 380 \<and>
   width (renderers (state_of (resize_observed 6
      (layout 0 (380, 280) 400 300 (run [Init props0 0] (initial clamp_orbit))))) 2) = Fin 400 \<and>
   width (renderers (state_of (resize_observed 6
      (layout 0 (380, 280) 400 300 (run [Init props0 0] (initial clamp_orbit))))) 2) \<noteq>
     Fin (contentWidth (elements (layout 0 (380, 280) 400 300 (run [Init props0 0] (initial clamp_orbit))) 0)) \<and>
   aspect (cameras (state_of (resize_observed 6
      (layout 0 (380, 280) 400 300 (run [Init props0 0] (initial clamp_orbit))))) 1) =
     Fin (6004799503160661 / 4503599627370496) \<and>
   aspect (cameras (state_of (resize_observed 6
      (layout 0 (380, 280) 400 300 (run [Init props0 0] (initial clamp_orbit))))) 1) \<noteq> Fin (400 / 300)"
proof -
  let ?s = "layout 0 (380, 280) 400 300 (run [Init props0 0] (initial clamp_orbit))"
  note h = padded_fields [of clamp_orbit]
  have r: "resize_observed 6 ?s = updateRendererSize 0 ?s"
    by (simp only: resize_observed_def h) simp
  note f = resized_fields [OF h(3,4), of 0]
  have w: "width (renderers (state_of (updateRendererSize 0 ?s)) 2) = Fin 400"
    unfolding f(2) h(5) by (simp add: num_of_int_def)
  have a: "aspect (cameras (state_of (updateRendererSize 0 ?s)) 1) = Fin (6004799503160661 / 4503599627370496)"
    unfolding f(4) h(5,6) by (simp add: num_of_int_def to_double_samples)
  from h(1,3,4,7) f(1) w a show ?thesis
    unfolding r by simp
qed

text \<open>
  Claim C6, amended. A size notification delivered to an observer that is watching runs
  \<open>updateRendererSize\<close> on the element the observer was made for. With the renderer and
  camera variables defined, the call returns; the renderer then has the client width and
  height of the element; the aspect of the camera is the quotient width / height as
  JavaScript computes it, which is the exact quotient rounded to a double when the height
  is not zero, and NaN or an infinity when it is; the projection has been recomputed for
  that aspect; the element and the seven variables are as they were. With the renderer or
  the camera variable undefined the call returns the state unchanged.
\<close>

theorem updateRendererSize_resizes:
  "(observed (observers s ro) \<noteq> [] \<longrightarrow>
      resize_observed ro s = updateRendererSize (callback_element (observers s ro)) s) \<and>
   (renderer s = None \<or> camera s = None \<longrightarrow> updateRendererSize el s = Inr s) \<and>
   (\<forall>r cam. renderer s = Some r \<longrightarrow> camera s = Some cam \<longrightarrow>
      returned (updateRendererSize el s) \<and>
      (let s' = state_of (updateRendererSize el s);
           w = clientWidth (elements s el); h = clientHeight (elements s el) in
         width (renderers s' r) = num_of_int w \<and>
         height (renderers s' r) = num_of_int h \<and>
         aspect (cameras s' cam) = js_div (num_of_int w) (num_of_int h) \<and>
         (h \<noteq> 0 \<longrightarrow> aspect (cameras s' cam) = to_double (of_int w / of_int h)) \<and>
         (h = 0 \<longrightarrow> aspect (cameras s' cam) = (if w = 0 then NaN else if 0 < w then PosInf else NegInf)) \<and>
         projectionMatrix (cameras s' cam) =
           (fov (cameras s cam), aspect (cameras s' cam), near (cameras s cam), far (cameras s cam)) \<and>
         elements s' = elements s \<and>
         renderer s' = renderer s \<and> camera s' = camera s \<and> scene s' = scene s \<and>
         controls s' = controls s \<and> model s' = model s \<and> mixer s' = mixer s \<and>
         resizeObserver s' = resizeObserver s))"
proof -
  have a: "observed (observers s ro) \<noteq> [] \<longrightarrow>
      resize_observed ro s = updateRendererSize (callback_element (observers s ro)) s"
    by (simp add: resize_observed_def)
  have b: "renderer s = None \<or> camera s = None \<longrightarrow> updateRendererSize el s = Inr s"
    by (simp add: updateRendererSize_idle)
  have c: "\<And>r cam. renderer s = Some r \<Longrightarrow> camera s = Some cam \<Longrightarrow>
      returned (updateRendererSize el s) \<and>
      (let s' = state_of (updateRendererSize el s);
           w = clientWidth (elements s el); h = clientHeight (elements s el) in
         width (renderers s' r) = num_of_int w \<and>
         height (renderers s' r) = num_of_int h \<and>
         aspect (cameras s' cam) = js_div (num_of_int w) (num_of_int h) \<and>
         (h \<noteq> 0 \<longrightarrow> aspect (cameras s' cam) = to_double (of_int w / of_int h)) \<and>
         (h = 0 \<longrightarrow> aspect (cameras s' cam) = (if w = 0 then NaN else if 0 < w then PosInf else NegInf)) \<and>
         projectionMatrix (cameras s' cam) =
           (fov (cameras s cam), aspect (cameras s' cam), near (cameras s cam), far (cameras s cam)) \<and>
         elements s' = elements s \<and>
         renderer s' = renderer s \<and> camera s' = camera s \<and> scene s' = scene s \<and>
         controls s' = controls s \<and> model s' = model s \<and> mixer s' = mixer s \<and>
         resizeObserver s' = resizeObserver s)"
    by (simp add: updateRendererSize_eq Let_def js_div_ints)
  from a b c show ?thesis by (intro conjI allI impI) (assumption | simp)+
qed

text \<open>
  Claim C6, amended, on the sample run, with the element laid out at a client size of 400
  by 300, and on the initial state.
\<close>

theorem updateRendererSize_resizes_witness:
  "observed (observers (layout 0 (380, 280) 400 300 (run [Init props0 0] (initial clamp_orbit))) 6) \<noteq> [] \<and>
   renderer (layout 0 (380, 280) 400 300 (run [Init props0 0] (initial clamp_orbit))) = Some 2 \<and>
   camera (layout 0 (380, 280) 400 300 (run [Init props0 0] (initial clamp_orbit))) = Some 1 \<and>
   returned (resize_observed 6 (layout 0 (380, 280) 400 300 (run [Init props0 0] (initial clamp_orbit)))) \<and>
   width (renderers (state_of (resize_observed 6 (layout 0 (380, 280) 400 300 (run [Init props0 0] (initial clamp_orbit))))) 2) = Fin 400 \<and>
   height (renderers (state_of (resize_observed 6 (layout 0 (380, 280) 400 300 (run [Init props0 0] (initial clamp_orbit))))) 2) = Fin 300 \<and>
   aspect (cameras (state_of (resize_observed 6 (layout 0 (380, 280) 400 300 (run [Init props0 0] (initial clamp_orbit))))) 1) =
     to_double (400 / 300) \<and>
   renderer (initial clamp_orbit) = None \<and> updateRendererSize 0 (initial clamp_orbit) = Inr (initial clamp_orbit)"
proof -
  let ?s = "layout 0 (380, 280) 400 300 (run [Init props0 0] (initial clamp_orbit))"
  note h = padded_fields [of clamp_orbit]
  note t = updateRendererSize_resizes [of ?s 6 0]
  have "observed (observers ?s 6) \<noteq> []" by (simp only: h(1)) simp
  with t [THEN conjunct1] have r: "resize_observed 6 ?s = updateRendererSize 0 ?s"
    by (simp only: h(2) simp_thms)
  note u = t [THEN conjunct2, THEN conjunct2, rule_format, OF h(3) h(4), unfolded Let_def h(5) h(6)]
  have ne: "(300::int) \<noteq> 0" by simp
  have v: "returned (resize_observed 6 ?s)"
    "width (renderers (state_of (resize_observed 6 ?s)) 2) = Fin 400"
    "height (renderers (state_of (resize_observed 6 ?s)) 2) = Fin 300"
    "aspect (cameras (state_of (resize_observed 6 ?s)) 1) = to_double (400 / 300)"
    using u ne unfolding r by (simp_all only: num_of_int_def simp_thms) simp_all
  have i: "renderer (initial clamp_orbit) = None" by (simp add: initial_def)
  with updateRendererSize_resizes [of "initial clamp_orbit" 0 0, THEN conjunct2, THEN conjunct1]
  have j: "updateRendererSize 0 (initial clamp_orbit) = Inr (initial clamp_orbit)"
    by (simp only: simp_thms)
  from h(1,3,4) v i j show ?thesis
    by (simp only: simp_thms) simp
qed

text \<open>
  Claim C7, as stated, is false: a load that completes after \<open>allDestroyed\<close> finds the scene
  variable undefined, and the callback raises before it attaches the subtree or makes a
  mixer.
\<close>

theorem load_after_teardown_raises:
  "loads (run [Init props0 0, AllDestroyed] (initial clamp_orbit)) = [(modelPath props0, props0)] \<and>
   \<not> returned (load_completed 0 [10, 11] (run [Init props0 0, AllDestroyed] (initial clamp_orbit))) \<and>
   mixer (state_of (load_completed 0 [10, 11] (run [Init props0 0, AllDestroyed] (initial clamp_orbit)))) = None"
proof -
  let ?a = "state_of (init props0 0 (initial clamp_orbit))"
  have r: "returned (allDestroyed ?a)" by (simp add: allDestroyed_returned active_handles)
  then have "allDestroyed ?a = Inr (state_of (allDestroyed ?a))"
    by (simp only: result_eq_Inr simp_thms)
  note d = allDestroyed_Inr [OF this, THEN conjunct2]
  have l: "loads (state_of (allDestroyed ?a)) = [(''m.glb'', props0)]"
    "scene (state_of (allDestroyed ?a)) = None" "mixer (state_of (allDestroyed ?a)) = None"
    by (simp_all add: d teardown_handles clear_fields disconnect_observer_eq active_handles)
  show ?thesis
    by (simp add: load_completed_raise l) (simp add: props0_def)
qed

text \<open>
  Claim C7, amended. When a load in flight, asked for at \<open>props.modelPath\<close>, completes
  while the scene variable is defined, the callback returns: the model variable refers to
  the loaded subtree, scaled by \<open>props.scale\<close> on the three axes and placed at
  \<open>props.position\<close>; the subtree is the last child of the scene; the mixer variable refers
  to a new mixer on that subtree, not yet advanced; and the mixer's actions are exactly the
  clips of the asset, each running in the default mode \<open>LoopRepeat\<close>.
\<close>

theorem load_completed_attaches:
  assumes "i < length (loads s)" and "loads s ! i = (modelPath props, props)" and "scene s = Some sc"
  shows "returned (load_completed i clips s) \<and>
         (let s' = state_of (load_completed i clips s); m = next_ref s; mx = next_ref s + 1 in
            model s' = Some m \<and>
            kind (object3ds s' m) = Group \<and>
            obj_scale (object3ds s' m) = vec3 (scale props) (scale props) (scale props) \<and>
            obj_position (object3ds s' m) = position props \<and>
            scene s' = Some sc \<and>
            children (scenes s' sc) = children (scenes s sc) @ [m] \<and>
            mixer s' = Some mx \<and>
            mixer_root (mixers s' mx) = m \<and>
            steps (mixers s' mx) = [] \<and>
            clip ` set (actions (mixers s' mx)) = set clips \<and>
            (\<forall>a\<in>set (actions (mixers s' mx)). running a \<and> loop a = LoopRepeat) \<and>
            (\<forall>c\<in>set clips. \<exists>a\<in>set (actions (mixers s' mx)).
               clip a = c \<and> running a \<and> loop a = LoopRepeat) \<and>
            loads s' = drop_nth i (loads s))"
proof -
  have each: "\<forall>c\<in>set clips. \<exists>a\<in>set (clips_played clips). clip a = c \<and> running a \<and> loop a = LoopRepeat"
    by (rule ballI) (rule clips_played_each)
  have every: "\<forall>a\<in>set (clips_played clips). running a \<and> loop a = LoopRepeat"
    and exact: "clip ` set (clips_played clips) = set clips"
    using clips_played_all [of clips] by simp_all
  have fields: "position (snd (loads s ! i)) = position props" "scale (snd (loads s ! i)) = scale props"
    by (simp_all add: assms(2))
  show ?thesis
    unfolding load_completed_ok [OF assms(1,3)] Let_def fields
    using each every exact assms(3) by simp
qed

text \<open>
  Claim C7, amended, on the sample run: the load asked for by \<open>init\<close> completes with two
  clips.
\<close>

theorem load_completed_attaches_witness:
  "loads (run [Init props0 0] (initial clamp_orbit)) ! 0 = (modelPath props0, props0) \<and>
   scene (run [Init props0 0] (initial clamp_orbit)) = Some 0 \<and>
   returned (load_completed 0 [10, 11] (run [Init props0 0] (initial clamp_orbit))) \<and>
   model (state_of (load_completed 0 [10, 11] (run [Init props0 0] (initial clamp_orbit)))) = Some 7 \<and>
   obj_scale (object3ds (state_of (load_completed 0 [10, 11] (run [Init props0 0] (initial clamp_orbit)))) 7)
     = vec3 (Fin 1) (Fin 1) (Fin 1) \<and>
   children (scenes (state_of (load_completed 0 [10, 11] (run [Init props0 0] (initial clamp_orbit)))) 0) = [4, 5, 7] \<and>
   mixer (state_of (load_completed 0 [10, 11] (run [Init props0 0] (initial clamp_orbit)))) = Some 8 \<and>
   clip ` set (actions (mixers (state_of (load_completed 0 [10, 11] (run [Init props0 0] (initial clamp_orbit)))) 8)) = {10, 11}"
proof -
  let ?s = "run [Init props0 0] (initial clamp_orbit)"
  have h: "0 < length (loads ?s)" "loads ?s ! 0 = (modelPath props0, props0)" "scene ?s = Some 0"
    "next_ref ?s = 7" "children (scenes ?s 0) = [4, 5]" "scale props0 = Fin 1"
    by (simp_all add: active_handles) (simp_all add: props0_def init_eq initial_def)
  note t = load_completed_attaches [OF h(1,2,3), of "[10, 11]", unfolded Let_def h(4,5,6)]
  from t h(2,3) show ?thesis
    by (simp only: simp_thms) auto
qed

text \<open>
  Claim C8, as stated, is false: the seven variables are neither all defined nor all
  undefined right after \<open>init\<close> (scene defined, model not: the load is in flight), after
  \<open>init\<close> and \<open>allDestroyed\<close> (scene undefined, resize observer still defined), and after an
  \<open>init\<close> that threw for want of a WebGL context (scene defined, renderer and resize
  observer not).
\<close>

theorem handles_partial_after_init:
  "scene (run [Init props0 0] (initial clamp_orbit)) \<noteq> None \<and>
   model (run [Init props0 0] (initial clamp_orbit)) = None \<and>
   \<not> (all_undefined (run [Init props0 0] (initial clamp_orbit)) \<or>
      all_defined (run [Init props0 0] (initial clamp_orbit))) \<and>
   scene (run [Init props0 0, AllDestroyed] (initial clamp_orbit)) = None \<and>
   resizeObserver (run [Init props0 0, AllDestroyed] (initial clamp_orbit)) \<noteq> None \<and>
   \<not> (all_undefined (run [Init props0 0, AllDestroyed] (initial clamp_orbit)) \<or>
      all_defined (run [Init props0 0, AllDestroyed] (initial clamp_orbit))) \<and>
   scene (run [WebGLAvailable False, Init props0 0] (initial clamp_orbit)) \<noteq> None \<and>
   renderer (run [WebGLAvailable False, Init props0 0] (initial clamp_orbit)) = None \<and>
   resizeObserver (run [WebGLAvailable False, Init props0 0] (initial clamp_orbit)) = None \<and>
   \<not> (all_undefined (run [WebGLAvailable False, Init props0 0] (initial clamp_orbit)) \<or>
      all_defined (run [WebGLAvailable False, Init props0 0] (initial clamp_orbit)))"
  by (simp add: all_undefined_def all_defined_def active_handles failed_handles destroyed_handles)

text \<open>
  Claim C8, amended. In every state reached from the initial one by calls of the four
  exported functions, load completions and failures, animation frames, size notifications,
  layout changes and changes of the page's ability to give a WebGL context: the scene and
  camera variables are both undefined or both defined; the renderer and controls
  variables are both undefined or both defined, and when they are defined so are the
  scene, camera and resize observer variables; and the mixer variable is defined only when
  the model and scene variables are.
\<close>

theorem handles_reachable: "handles_inv (run evs (initial law))"
  using inv_run [of evs law] by (simp add: inv_def)

text \<open>
  Claim C8, amended, on the sample run with a loaded model, where all seven variables are
  defined, and after an \<open>init\<close> that threw, where only scene and camera are.
\<close>

theorem handles_reachable_witness:
  "mixer (run [Init props0 0, LoadCompleted 0 [10, 11]] (initial clamp_orbit)) \<noteq> None \<and>
   model (run [Init props0 0, LoadCompleted 0 [10, 11]] (initial clamp_orbit)) \<noteq> None \<and>
   scene (run [Init props0 0, LoadCompleted 0 [10, 11]] (initial clamp_orbit)) \<noteq> None \<and>
   camera (run [Init props0 0, LoadCompleted 0 [10, 11]] (initial clamp_orbit)) \<noteq> None \<and>
   renderer (run [Init props0 0, LoadCompleted 0 [10, 11]] (initial clamp_orbit)) \<noteq> None \<and>
   controls (run [Init props0 0, LoadCompleted 0 [10, 11]] (initial clamp_orbit)) \<noteq> None \<and>
   resizeObserver (run [Init props0 0, LoadCompleted 0 [10, 11]] (initial clamp_orbit)) \<noteq> None \<and>
   scene (run [WebGLAvailable False, Init props0 0] (initial clamp_orbit)) \<noteq> None \<and>
   camera (run [WebGLAvailable False, Init props0 0] (initial clamp_orbit)) \<noteq> None \<and>
   renderer (run [WebGLAvailable False, Init props0 0] (initial clamp_orbit)) = None \<and>
   controls (run [WebGLAvailable False, Init props0 0] (initial clamp_orbit)) = None"
  using handles_reachable [of "[Init props0 0, LoadCompleted 0 [10, 11]]" clamp_orbit]
    handles_reachable [of "[WebGLAvailable False, Init props0 0]" clamp_orbit]
  by (simp add: handles_inv_def loaded_handles loaded_more failed_handles)

text \<open>
  Claim C9. In every state the module can reach, a call of \<open>clearCurrentModel\<close> that returns
  leaves the model and mixer variables as they were: the model variable still refers to
  the subtree, which is no longer a child of the scene, and the mixer variable to the same
  mixer, on its root as before. A second call therefore runs the cleanup on that model
  again. No event but \<open>allDestroyed\<close> makes a defined model or mixer variable undefined,
  and \<open>allDestroyed\<close>, when it returns, leaves both undefined.
\<close>

theorem clearCurrentModel_keeps_variables:
  assumes "s = run evs (initial law)" and "clearCurrentModel s = Inr s'"
  shows "model s' = model s \<and> mixer s' = mixer s \<and>
         (\<forall>m. model s = Some m \<longrightarrow>
            clearCurrentModel s' = cleanup m s' \<and>
            (\<forall>sc. scene s' = Some sc \<longrightarrow> m \<notin> set (children (scenes s' sc)))) \<and>
         (\<forall>mx. mixer s = Some mx \<longrightarrow> mixer_root (mixers s' mx) = mixer_root (mixers s mx)) \<and>
         (\<forall>ev. ev \<noteq> AllDestroyed \<longrightarrow>
            (model s \<noteq> None \<longrightarrow> model (state_of (step ev s)) \<noteq> None) \<and>
            (mixer s \<noteq> None \<longrightarrow> mixer (state_of (step ev s)) \<noteq> None)) \<and>
         (\<forall>t. allDestroyed s = Inr t \<longrightarrow> model t = None \<and> mixer t = None)"
proof -
  have i: "inv s" by (simp add: assms(1) inv_run)
  from assms(2) have s': "s' = state_of (clearCurrentModel s)" by simp
  have v: "model s' = model s" "mixer s' = mixer s" "scene s' = scene s"
    by (simp_all add: s' clear_fields)
  have again: "\<And>m. model s = Some m \<Longrightarrow> clearCurrentModel s' = cleanup m s'"
    by (simp add: clearCurrentModel_def v)
  have detached: "\<And>m sc. model s = Some m \<Longrightarrow> scene s' = Some sc \<Longrightarrow> m \<notin> set (children (scenes s' sc))"
    using i by (simp add: s' clear_fields clear_detaches)
  have rooted: "\<And>mx. mixer s = Some mx \<Longrightarrow> mixer_root (mixers s' mx) = mixer_root (mixers s mx)"
    by (simp add: s' clear_state split: option.split)
  have destroyed: "\<And>t. allDestroyed s = Inr t \<Longrightarrow> model t = None \<and> mixer t = None"
    by (auto dest!: allDestroyed_Inr simp: teardown_handles)
  from v again detached rooted destroyed show ?thesis
    by (simp add: step_keeps_vars)
qed

text \<open>
  Claim C9 on the sample run with a loaded model.
\<close>

theorem clearCurrentModel_keeps_variables_witness:
  "returned (clearCurrentModel (run [Init props0 0, LoadCompleted 0 [10, 11]] (initial clamp_orbit))) \<and>
   model (run [Init props0 0, LoadCompleted 0 [10, 11]] (initial clamp_orbit)) = Some 7 \<and>
   mixer (run [Init props0 0, LoadCompleted 0 [10, 11]] (initial clamp_orbit)) = Some 8 \<and>
   model (state_of (clearCurrentModel (run [Init props0 0, LoadCompleted 0 [10, 11]] (initial clamp_orbit)))) = Some 7 \<and>
   mixer (state_of (clearCurrentModel (run [Init props0 0, LoadCompleted 0 [10, 11]] (initial clamp_orbit)))) = Some 8 \<and>
   7 \<notin> set (children (scenes (state_of (clearCurrentModel (run [Init props0 0, LoadCompleted 0 [10, 11]] (initial clamp_orbit)))) 0)) \<and>
   model (state_of (step (Init props0 0) (run [Init props0 0, LoadCompleted 0 [10, 11]] (initial clamp_orbit)))) \<noteq> None \<and>
   model (state_of (allDestroyed (run [Init props0 0, LoadCompleted 0 [10, 11]] (initial clamp_orbit)))) = None"
proof -
  let ?s = "run [Init props0 0, LoadCompleted 0 [10, 11]] (initial clamp_orbit)"
  have h: "scene ?s = Some 0" "model ?s = Some 7" "mixer ?s = Some 8"
    by (simp_all add: loaded_handles)
  then have ret: "returned (clearCurrentModel ?s)" "returned (allDestroyed ?s)"
    by (simp_all only: clear_returned allDestroyed_returned) simp_all
  then have r: "clearCurrentModel ?s = Inr (state_of (clearCurrentModel ?s))"
    "allDestroyed ?s = Inr (state_of (allDestroyed ?s))"
    by (simp_all only: result_eq_Inr simp_thms)
  have sc: "scene (state_of (clearCurrentModel ?s)) = Some 0"
    using h by (simp only: clear_fields)
  note t = clearCurrentModel_keeps_variables [OF refl r(1)]
  from t h have a: "model (state_of (clearCurrentModel ?s)) = Some 7"
    "mixer (state_of (clearCurrentModel ?s)) = Some 8"
    by simp_all
  from t h sc have b: "7 \<notin> set (children (scenes (state_of (clearCurrentModel ?s)) 0))"
    by blast
  have "Init props0 0 \<noteq> AllDestroyed" by simp
  with t h have c: "model (state_of (step (Init props0 0) ?s)) \<noteq> None"
    by blast
  from t r(2) have d: "model (state_of (allDestroyed ?s)) = None"
    by blast
  from h ret a b c d show ?thesis
    by (simp only: simp_thms)
qed

text \<open>
  Claim C10. When the new path is empty, or equals the old path, or the scene variable is
  undefined, \<open>modelPathstate\<close> returns without raising and leaves the whole state as it
  was: every variable, the contents of the scene, the camera position, the target of the
  controls and the list of loads in flight.
\<close>

theorem modelPathstate_noop:
  "newPath = [] \<or> newPath = oldPath \<or> scene s = None \<Longrightarrow>
   modelPathstate newPath oldPath props s = Inr s"
  by (rule modelPathstate_idle)

text \<open>
  Claim C10 on the sample run (empty path, equal paths) and on the initial state (no
  scene).
\<close>

theorem modelPathstate_noop_witness:
  "modelPathstate [] ''a.glb'' props0 (run [Init props0 0] (initial clamp_orbit)) = Inr (run [Init props0 0] (initial clamp_orbit)) \<and>
   modelPathstate ''a.glb'' ''a.glb'' props0 (run [Init props0 0] (initial clamp_orbit)) = Inr (run [Init props0 0] (initial clamp_orbit)) \<and>
   scene (initial clamp_orbit) = None \<and>
   modelPathstate ''b.glb'' ''a.glb'' props0 (initial clamp_orbit) = Inr (initial clamp_orbit)"
  using modelPathstate_noop [of "[]" "''a.glb''" "run [Init props0 0] (initial clamp_orbit)" props0]
    modelPathstate_noop [of "''a.glb''" "''a.glb''" "run [Init props0 0] (initial clamp_orbit)" props0]
    modelPathstate_noop [of "''b.glb''" "''a.glb''" "initial clamp_orbit" props0]
  by (simp add: initial_def)

end
